theory Spec2Isabelle
  imports Main "HOL-Library.Word" "HOL-Library.Sublist"
begin

section \<open>The Nextcloud storage driver of reva\<close>

text \<open>
  The driver (package \<^verbatim>\<open>nextcloud\<close>) implements the storage.FS interface by turning
  every call into one HTTP request against a Nextcloud server. Two revisions of the
  file are verified side by side: \<^verbatim>\<open>pkg/storage/fs/nextcloud/nextcloud.go\<close> and the
  unnamed second revision \<^verbatim>\<open>part_000\<close>. The helpers \<^verbatim>\<open>getUser\<close>, \<^verbatim>\<open>do\<close>,
  \<^verbatim>\<open>doUpload\<close>, \<^verbatim>\<open>doDownload\<close> and \<^verbatim>\<open>doDownloadRevision\<close> are the same text in both;
  a method that differs is embedded twice, the one of \<^verbatim>\<open>part_000\<close> with the suffix
  \<open>_part0\<close>.

  Conventions of the embedding.
  \<^item> A Go function returning \<^verbatim>\<open>(v, error)\<close> returns an \<open>outcome\<close>: \<open>Return v\<close> when
    the error is nil, \<open>Error e\<close> when it is not (every error return of the source
    carries the zero value of the result beside it), \<open>Panic\<close> when the goroutine
    panics.
  \<^item> The receiver \<^verbatim>\<open>nc *StorageDriver\<close> and the requests handed to \<^verbatim>\<open>nc.client.Do\<close>
    form the state that every method takes and returns.
  \<^item> What lives outside the repository (net/http, net/url, encoding/json, the
    float64 conversions, the decoding of the protobuf types) is a field of the
    environment \<open>env\<close>, so every theorem holds for each behaviour of these.
  \<^item> A pointer parameter is modelled by the value it points to: calls with nil
    references are outside the model. Logging (\<^verbatim>\<open>log.Info\<close>, \<^verbatim>\<open>fmt.Printf\<close>) is left
    out.
\<close>

subsection \<open>HTTP\<close>

type_synonym bytes = string

datatype http_method = MethodGet | MethodPost | MethodPut

text \<open>An \<^verbatim>\<open>*http.Request\<close> as the driver builds it: method, URL string, the
  Content-Type header (the only header the driver sets) and the body.\<close>

record request =
  reqMethod :: http_method
  reqURL :: string
  reqContentType :: "string option"
  reqBody :: bytes

text \<open>An \<^verbatim>\<open>*http.Response\<close>: the status code and the body stream; \<open>None\<close> is a stream
  on which \<^verbatim>\<open>io.ReadAll\<close> fails.\<close>

record response =
  StatusCode :: int
  Body :: "bytes option"

text \<open>\<^verbatim>\<open>nc.client.Do(req)\<close>: \<open>None\<close> is a failed round trip.\<close>

type_synonym http_client = "request \<Rightarrow> response option"

subsection \<open>Errors and outcomes\<close>

datatype error =
    UserRequired
  | NewRequestError
  | TransportError
  | ReadError
  | MarshalError
  | UnmarshalError
  | NotFound
  | Unimplemented string

datatype 'a outcome = Return 'a | Error error | Panic

fun isError :: "'a outcome \<Rightarrow> bool" where
  "isError (Error e) = True"
| "isError (Return v) = False"
| "isError Panic = False"

subsection \<open>JSON values\<close>

text \<open>What \<^verbatim>\<open>json.Unmarshal\<close> stores into an \<^verbatim>\<open>interface{}\<close>: nil, bool, float64,
  string, \<^verbatim>\<open>[]interface{}\<close>, \<^verbatim>\<open>map[string]interface{}\<close>. The type \<open>'f\<close> stands for
  float64. An object keeps its members in the order of the text; a later duplicate
  key overwrites the one before it when the map is read (\<open>lookupKey\<close>).\<close>

datatype 'f json =
    JNull
  | JBool bool
  | JNum 'f
  | JStr string
  | JArr "'f json list"
  | JObj "(string \<times> 'f json) list"

definition lookupKey :: "(string \<times> 'f json) list \<Rightarrow> string \<Rightarrow> 'f json option" where
  "lookupKey kvs k = map_of (rev kvs) k"

text \<open>The type assertions \<^verbatim>\<open>x.(string)\<close>, \<^verbatim>\<open>x.(float64)\<close>, \<^verbatim>\<open>x.(bool)\<close> and
  \<^verbatim>\<open>x.(map[string]interface{})\<close> on the result of a map lookup. \<open>None\<close> is the panic
  of the one-result form; a missing key and a JSON null are both the nil interface,
  on which every assertion fails.\<close>

fun asString :: "'f json option \<Rightarrow> string option" where
  "asString (Some (JStr s)) = Some s"
| "asString _ = None"

fun asFloat64 :: "'f json option \<Rightarrow> 'f option" where
  "asFloat64 (Some (JNum x)) = Some x"
| "asFloat64 _ = None"

fun asBool :: "'f json option \<Rightarrow> bool option" where
  "asBool (Some (JBool b)) = Some b"
| "asBool _ = None"

fun asMap :: "'f json option \<Rightarrow> (string \<times> 'f json) list option" where
  "asMap (Some (JObj kvs)) = Some kvs"
| "asMap _ = None"

subsection \<open>The CS3 API types the driver touches\<close>

text \<open>The protobuf structs of go-cs3apis, with the fields the driver sets or reads
  (the \<^verbatim>\<open>XXX_\<close> bookkeeping fields are always zero and left out). A pointer field is
  an option. Field names carry a prefix, since two Isabelle records cannot share a
  field name.\<close>

datatype UserType = USER_TYPE_INVALID | USER_TYPE_PRIMARY

datatype ResourceType =
  RESOURCE_TYPE_INVALID | RESOURCE_TYPE_FILE | RESOURCE_TYPE_CONTAINER

record ResourceId =
  rid_StorageId :: string
  rid_OpaqueId :: string

record UserId =
  uid_Idp :: string
  uid_OpaqueId :: string
  uid_Type :: UserType

record User =
  user_Id :: "UserId option"
  Username :: string

record OpaqueEntry =
  oe_Value :: bytes

record Opaque =
  opaque_Map :: "string \<rightharpoonup> OpaqueEntry"

record Timestamp =
  ts_Seconds :: "64 word"

datatype ResourceChecksum = ResourceChecksum_zero

datatype CanonicalMetadata = CanonicalMetadata_zero

record ResourcePermissions =
  p_AddGrant :: bool
  p_CreateContainer :: bool
  p_Delete :: bool
  p_GetPath :: bool
  p_GetQuota :: bool
  p_InitiateFileDownload :: bool
  p_InitiateFileUpload :: bool
  p_ListGrants :: bool
  p_ListContainer :: bool
  p_ListFileVersions :: bool
  p_ListRecycle :: bool
  p_Move :: bool
  p_RemoveGrant :: bool
  p_PurgeRecycle :: bool
  p_RestoreFileVersion :: bool
  p_RestoreRecycleItem :: bool
  p_Stat :: bool
  p_UpdateGrant :: bool

record ArbitraryMetadata =
  am_Metadata :: "string \<rightharpoonup> string"

record Reference =
  ref_ResourceId :: "ResourceId option"
  ref_Path :: string

record ResourceInfo =
  ri_Opaque :: "Opaque option"
  ri_Type :: ResourceType
  ri_Id :: "ResourceId option"
  ri_Checksum :: "ResourceChecksum option"
  ri_Etag :: string
  ri_MimeType :: string
  ri_Mtime :: "Timestamp option"
  ri_Path :: string
  ri_PermissionSet :: "ResourcePermissions option"
  ri_Size :: "64 word"
  ri_Owner :: "UserId option"
  ri_Target :: string
  ri_CanonicalMetadata :: "CanonicalMetadata option"
  ri_ArbitraryMetadata :: "ArbitraryMetadata option"

record FileVersion =
  fv_Opaque :: "Opaque option"
  fv_Key :: string
  fv_Size :: "64 word"
  fv_Mtime :: "64 word"
  fv_Etag :: string

record RecycleItem =
  rc_Opaque :: "Opaque option"
  rc_Key :: string
  rc_Ref :: "Reference option"
  rc_Size :: "64 word"
  rc_DeletionTime :: "Timestamp option"

datatype GranteeId = Grantee_UserId "UserId option"

record Grantee =
  grantee_Id :: "GranteeId option"

record Grant =
  grant_Grantee :: "Grantee option"
  grant_Permissions :: "ResourcePermissions option"

record Quota =
  QuotaMaxBytes :: "64 word"
  QuotaMaxFiles :: "64 word"

record StorageSpaceId =
  ssid_OpaqueId :: string

record StorageSpace =
  ss_Opaque :: "Opaque option"
  ss_Id :: "StorageSpaceId option"
  ss_Owner :: "User option"
  ss_Root :: "ResourceId option"
  ss_Name :: string
  ss_Quota :: "Quota option"
  ss_SpaceType :: string
  ss_Mtime :: "Timestamp option"

typedecl ListStorageSpacesRequest_Filter

text \<open>The zero values \<^verbatim>\<open>&types.Opaque{}\<close>, \<^verbatim>\<open>&provider.ResourcePermissions{}\<close> and
  \<^verbatim>\<open>&provider.ResourceId{}\<close> that \<^verbatim>\<open>part_000\<close> writes into its results.\<close>

definition Opaque_zero :: Opaque where
  "Opaque_zero = \<lparr>opaque_Map = Map.empty\<rparr>"

definition ResourcePermissions_zero :: ResourcePermissions where
  "ResourcePermissions_zero =
     \<lparr>p_AddGrant = False, p_CreateContainer = False, p_Delete = False, p_GetPath = False,
      p_GetQuota = False, p_InitiateFileDownload = False, p_InitiateFileUpload = False,
      p_ListGrants = False, p_ListContainer = False, p_ListFileVersions = False,
      p_ListRecycle = False, p_Move = False, p_RemoveGrant = False, p_PurgeRecycle = False,
      p_RestoreFileVersion = False, p_RestoreRecycleItem = False, p_Stat = False,
      p_UpdateGrant = False\<rparr>"

definition ResourceId_zero :: ResourceId where
  "ResourceId_zero = \<lparr>rid_StorageId = [], rid_OpaqueId = []\<rparr>"

subsection \<open>The values handed to json.Marshal\<close>

text \<open>The Go value a method passes to \<^verbatim>\<open>json.Marshal\<close>. A local \<^verbatim>\<open>paramsObj\<close> struct is
  \<open>GoStruct\<close> with its json tags in declaration order; a \<^verbatim>\<open>map[string]T\<close> is \<open>GoMap\<close>
  with its entries (written in key order, the order encoding/json emits). A pointer
  to a struct is marshalled as the struct; a nil slice and an empty one are both the
  empty list.\<close>

datatype goval =
    GoString string
  | GoInt64 "64 word"
  | GoStrings "string list"
  | GoStringMap "string \<rightharpoonup> string"
  | GoReference Reference
  | GoResourceId ResourceId
  | GoGrant Grant
  | GoGrantee Grantee
  | GoArbitraryMetadata ArbitraryMetadata
  | GoFilters "ListStorageSpacesRequest_Filter list"
  | GoStruct "(string \<times> goval) list"
  | GoMap "(string \<times> goval) list"

subsection \<open>The environment: what the driver calls outside the repository\<close>

record 'f env =
  urlParse :: "string \<Rightarrow> bool"
    \<comment> \<open>whether \<^verbatim>\<open>http.NewRequest\<close> accepts the URL (it fails when \<^verbatim>\<open>url.Parse\<close> does)\<close>
  QueryEscape :: "string \<Rightarrow> string"
    \<comment> \<open>\<^verbatim>\<open>url.QueryEscape\<close>\<close>
  Marshal :: "goval \<Rightarrow> bytes option"
    \<comment> \<open>\<^verbatim>\<open>json.Marshal\<close>; \<open>None\<close> when it returns an error\<close>
  Parse :: "bytes \<Rightarrow> 'f json option"
    \<comment> \<open>the JSON text of a non-empty body as a value; \<open>None\<close> on a syntax error\<close>
  toUint64 :: "'f \<Rightarrow> 64 word"
    \<comment> \<open>the conversion \<^verbatim>\<open>uint64(f)\<close> of a float64\<close>
  toInt :: "'f \<Rightarrow> 64 word"
    \<comment> \<open>the conversion \<^verbatim>\<open>int(f)\<close> of a float64, as the 64 bits of the int\<close>
  decodeResourceInfo :: "'f json \<Rightarrow> ResourceInfo option"
  decodeFileVersion :: "'f json \<Rightarrow> FileVersion option"
  decodeRecycleItem :: "'f json \<Rightarrow> RecycleItem option"
  decodeGrant :: "'f json \<Rightarrow> Grant option"
    \<comment> \<open>encoding/json storing one JSON value into a struct of the given type;
        \<open>None\<close> when it reports an error\<close>
  decodeStringMap :: "'f json \<Rightarrow> (string \<rightharpoonup> string) option"
    \<comment> \<open>the same for a \<^verbatim>\<open>map[string]string\<close>\<close>

text \<open>\<^verbatim>\<open>json.Unmarshal(data, &v)\<close> checks the syntax of the whole input first; empty
  input (also the nil slice \<^verbatim>\<open>do\<close> returns beside an error) is a syntax error.\<close>

definition Unmarshal :: "'f env \<Rightarrow> bytes \<Rightarrow> 'f json option" where
  "Unmarshal E data = (if data = [] then None else Parse E data)"

text \<open>Unmarshal into a \<^verbatim>\<open>[]T\<close>: an array is decoded element by element, null leaves
  the slice nil, anything else is an error; an element that fails to decode makes
  the call return an error.\<close>

definition unmarshalSlice :: "'f env \<Rightarrow> ('f json \<Rightarrow> 'a option) \<Rightarrow> bytes \<Rightarrow> 'a list option" where
  "unmarshalSlice E dec data =
     (case Unmarshal E data of
        None \<Rightarrow> None
      | Some JNull \<Rightarrow> Some []
      | Some (JArr xs) \<Rightarrow> those (map dec xs)
      | Some _ \<Rightarrow> None)"

text \<open>Unmarshal into a \<^verbatim>\<open>[]interface{}\<close> and into a \<^verbatim>\<open>map[string]interface{}\<close>.\<close>

definition unmarshalArray :: "'f env \<Rightarrow> bytes \<Rightarrow> 'f json list option" where
  "unmarshalArray E data = unmarshalSlice E Some data"

definition unmarshalObject :: "'f env \<Rightarrow> bytes \<Rightarrow> (string \<times> 'f json) list option" where
  "unmarshalObject E data =
     (case Unmarshal E data of
        None \<Rightarrow> None
      | Some JNull \<Rightarrow> Some []
      | Some (JObj kvs) \<Rightarrow> Some kvs
      | Some _ \<Rightarrow> None)"

text \<open>\<^verbatim>\<open>bodyStr, _ := json.Marshal(x)\<close> followed by \<^verbatim>\<open>string(bodyStr)\<close>: the error is
  dropped and the nil slice becomes the empty string.\<close>

definition marshalDropErr :: "'f env \<Rightarrow> goval \<Rightarrow> bytes" where
  "marshalDropErr E x = (case Marshal E x of None \<Rightarrow> [] | Some b \<Rightarrow> b)"

subsection \<open>The driver and its helpers\<close>

record StorageDriverConfig =
  EndPoint :: string
  MockHTTP :: bool

record StorageDriver =
  endPoint :: string
  client :: http_client

text \<open>The state a method runs in: the receiver \<open>nc\<close> and \<open>wire\<close>, the requests handed
  to \<^verbatim>\<open>nc.client.Do\<close> so far, oldest first.\<close>

record state =
  nc :: StorageDriver
  wire :: "request list"

text \<open>\<^verbatim>\<open>NewStorageDriver\<close>. The mock client (\<^verbatim>\<open>TestingHTTPClient\<close> over
  \<^verbatim>\<open>GetNextcloudServerMock\<close>, whose file is not among the sources) and the client
  \<^verbatim>\<open>&http.Client{}\<close> of the network are parameters. The error result is always nil.\<close>

definition NewStorageDriver :: "http_client \<Rightarrow> http_client \<Rightarrow> StorageDriverConfig \<Rightarrow> StorageDriver" where
  "NewStorageDriver mockClient netClient c =
     \<lparr>endPoint = EndPoint c,
      client = (if MockHTTP c then mockClient else netClient)\<rparr>"

definition SetHTTPClient :: "http_client \<Rightarrow> state \<Rightarrow> state" where
  "SetHTTPClient c s = s\<lparr>nc := (nc s)\<lparr>client := c\<rparr>\<rparr>"

record Action =
  verb :: string
  argS :: string

text \<open>The context, as far as the driver looks into it: the user
  \<^verbatim>\<open>ctxpkg.ContextGetUser\<close> finds, if any.\<close>

type_synonym Context = "User option"

definition getUser :: "Context \<Rightarrow> error + User" where
  "getUser ctx = (case ctx of None \<Rightarrow> Inl UserRequired | Some u \<Rightarrow> Inr u)"

text \<open>\<^verbatim>\<open>http.NewRequest(method, url, body)\<close>: a request without headers, or an error.\<close>

definition NewRequest :: "'f env \<Rightarrow> http_method \<Rightarrow> string \<Rightarrow> bytes \<Rightarrow> error + request" where
  "NewRequest E m u b =
     (if urlParse E u
      then Inr \<lparr>reqMethod = m, reqURL = u, reqContentType = None, reqBody = b\<rparr>
      else Inl NewRequestError)"

text \<open>\<^verbatim>\<open>nc.client.Do(req)\<close>: the request goes on the wire, the client answers.\<close>

definition clientDo :: "request \<Rightarrow> state \<Rightarrow> response option \<times> state" where
  "clientDo req s = (client (nc s) req, s\<lparr>wire := wire s @ [req]\<rparr>)"

definition doUpload :: "'f env \<Rightarrow> Context \<Rightarrow> string \<Rightarrow> bytes \<Rightarrow> state \<Rightarrow> unit outcome \<times> state" where
  "doUpload E ctx filePath r s =
     (case getUser ctx of
        Inl err \<Rightarrow> (Error err, s)
      | Inr user \<Rightarrow>
          (let url = endPoint (nc s) @ ''~'' @ Username user @ ''/api/Upload/'' @ filePath in
           case NewRequest E MethodPut url r of
             Inl err \<Rightarrow> (Panic, s)
           | Inr req0 \<Rightarrow>
               (let req = req0\<lparr>reqContentType := Some ''text/plain''\<rparr> in
                case clientDo req s of
                  (None, s') \<Rightarrow> (Panic, s')
                | (Some resp, s') \<Rightarrow>
                    (case Body resp of
                       None \<Rightarrow> (Error ReadError, s')
                     | Some body \<Rightarrow> (Return (), s')))))"

text \<open>The two download helpers return the body stream of the response unread.\<close>

definition doDownload :: "'f env \<Rightarrow> Context \<Rightarrow> string \<Rightarrow> state \<Rightarrow> bytes option outcome \<times> state" where
  "doDownload E ctx filePath s =
     (case getUser ctx of
        Inl err \<Rightarrow> (Error err, s)
      | Inr user \<Rightarrow>
          (let url = endPoint (nc s) @ ''~'' @ Username user @ ''/api/Download/'' @ filePath in
           case NewRequest E MethodGet url [] of
             Inl err \<Rightarrow> (Panic, s)
           | Inr req \<Rightarrow>
               (case clientDo req s of
                  (None, s') \<Rightarrow> (Panic, s')
                | (Some resp, s') \<Rightarrow>
                    (if StatusCode resp \<noteq> 200 then (Panic, s')
                     else (Return (Body resp), s')))))"

definition doDownloadRevision :: "'f env \<Rightarrow> Context \<Rightarrow> string \<Rightarrow> string \<Rightarrow> state \<Rightarrow> bytes option outcome \<times> state" where
  "doDownloadRevision E ctx filePath key s =
     (case getUser ctx of
        Inl err \<Rightarrow> (Error err, s)
      | Inr user \<Rightarrow>
          (let url = endPoint (nc s) @ ''~'' @ Username user @ ''/api/DownloadRevision/''
                       @ QueryEscape E key @ ''/'' @ filePath in
           case NewRequest E MethodGet url [] of
             Inl err \<Rightarrow> (Panic, s)
           | Inr req \<Rightarrow>
               (case clientDo req s of
                  (None, s') \<Rightarrow> (Panic, s')
                | (Some resp, s') \<Rightarrow>
                    (if StatusCode resp \<noteq> 200 then (Panic, s')
                     else (Return (Body resp), s')))))"

text \<open>\<^verbatim>\<open>do\<close> returns the status code and the body it read, or an error; each of its
  error returns is \<^verbatim>\<open>0, nil, err\<close>. It has no panic.\<close>

definition do :: "'f env \<Rightarrow> Context \<Rightarrow> Action \<Rightarrow> state \<Rightarrow> (error + int \<times> bytes) \<times> state" where
  "do E ctx a s =
     (case getUser ctx of
        Inl err \<Rightarrow> (Inl err, s)
      | Inr user \<Rightarrow>
          (let url = endPoint (nc s) @ ''~'' @ Username user @ ''/api/'' @ verb a in
           case NewRequest E MethodPost url (argS a) of
             Inl err \<Rightarrow> (Inl err, s)
           | Inr req0 \<Rightarrow>
               (let req = req0\<lparr>reqContentType := Some ''application/json''\<rparr> in
                case clientDo req s of
                  (None, s') \<Rightarrow> (Inl TransportError, s')
                | (Some resp, s') \<Rightarrow>
                    (case Body resp of
                       None \<Rightarrow> (Inl ReadError, s')
                     | Some body \<Rightarrow> (Inr (StatusCode resp, body), s')))))"

text \<open>What the methods do with the three results of \<^verbatim>\<open>do\<close>:
  \<^verbatim>\<open>_, _, err := nc.do(...); return err\<close> keeps the error only;
  \<^verbatim>\<open>_, respBody, err := nc.do(...); return string(respBody), err\<close> keeps the body;
  \<open>bodyOf\<close> is \<^verbatim>\<open>respBody\<close> whatever the error, nil beside an error.\<close>

fun errOnly :: "error + 'a \<Rightarrow> unit outcome" where
  "errOnly (Inr v) = Return ()"
| "errOnly (Inl e) = Error e"

fun bodyString :: "error + int \<times> bytes \<Rightarrow> bytes outcome" where
  "bodyString (Inr (status, body)) = Return body"
| "bodyString (Inl e) = Error e"

fun bodyOf :: "error + int \<times> bytes \<Rightarrow> bytes" where
  "bodyOf (Inr (status, body)) = body"
| "bodyOf (Inl e) = []"

text \<open>\<^verbatim>\<open>err = json.Unmarshal(body, &v); if err != nil { return nil, err }\<close>, and the
  same with a panic for \<open>None\<close> (a failed type assertion while the result is built).\<close>

fun orUnmarshalError :: "'a option \<Rightarrow> 'a outcome" where
  "orUnmarshalError None = Error UnmarshalError"
| "orUnmarshalError (Some v) = Return v"

fun orPanic :: "'a option \<Rightarrow> 'a outcome" where
  "orPanic None = Panic"
| "orPanic (Some v) = Return v"

text \<open>Unmarshal into a struct variable of a protobuf type.\<close>

definition unmarshalStruct :: "'f env \<Rightarrow> ('f json \<Rightarrow> 'a option) \<Rightarrow> bytes \<Rightarrow> 'a option" where
  "unmarshalStruct E dec data = Option.bind (Unmarshal E data) dec"

text \<open>\<^verbatim>\<open>for k, v := range m { out[k] = v.(string) }\<close> over a decoded object: the map of
  its string values, or \<open>None\<close> (a panic) when some value is not a string.\<close>

definition stringValues :: "(string \<times> 'f json) list \<Rightarrow> (string \<rightharpoonup> string) option" where
  "stringValues kvs =
     (if list_all (\<lambda>k. asString (lookupKey kvs k) \<noteq> None) (map fst kvs)
      then Some (\<lambda>k. asString (lookupKey kvs k))
      else None)"

subsection \<open>The methods of nextcloud.go\<close>

definition CreateStorageSpace :: "Context \<Rightarrow> state \<Rightarrow> unit outcome \<times> state" where
  "CreateStorageSpace ctx s = (Error (Unimplemented ''unimplemented: CreateStorageSpace''), s)"

definition GetHome :: "'f env \<Rightarrow> Context \<Rightarrow> state \<Rightarrow> bytes outcome \<times> state" where
  "GetHome E ctx s = apfst bodyString (do E ctx \<lparr>verb = ''GetHome'', argS = ''''\<rparr> s)"

definition CreateHome :: "'f env \<Rightarrow> Context \<Rightarrow> state \<Rightarrow> unit outcome \<times> state" where
  "CreateHome E ctx s = apfst errOnly (do E ctx \<lparr>verb = ''CreateHome'', argS = ''''\<rparr> s)"

definition CreateDir :: "'f env \<Rightarrow> Context \<Rightarrow> Reference \<Rightarrow> state \<Rightarrow> unit outcome \<times> state" where
  "CreateDir E ctx ref s =
     (case Marshal E (GoReference ref) of
        None \<Rightarrow> (Error MarshalError, s)
      | Some bodyStr \<Rightarrow> apfst errOnly (do E ctx \<lparr>verb = ''CreateDir'', argS = bodyStr\<rparr> s))"

definition Delete :: "'f env \<Rightarrow> Context \<Rightarrow> Reference \<Rightarrow> state \<Rightarrow> unit outcome \<times> state" where
  "Delete E ctx ref s =
     (case Marshal E (GoReference ref) of
        None \<Rightarrow> (Error MarshalError, s)
      | Some bodyStr \<Rightarrow> apfst errOnly (do E ctx \<lparr>verb = ''Delete'', argS = bodyStr\<rparr> s))"

definition Move :: "'f env \<Rightarrow> Context \<Rightarrow> Reference \<Rightarrow> Reference \<Rightarrow> state \<Rightarrow> unit outcome \<times> state" where
  "Move E ctx oldRef newRef s =
     (let bodyStr = marshalDropErr E
            (GoStruct [(''oldRef'', GoReference oldRef), (''newRef'', GoReference newRef)])
      in apfst errOnly (do E ctx \<lparr>verb = ''Move'', argS = bodyStr\<rparr> s))"

text \<open>\<^verbatim>\<open>GetMD\<close> and \<^verbatim>\<open>ListFolder\<close> look at the status code before the body.\<close>

definition GetMD_response :: "'f env \<Rightarrow> error + int \<times> bytes \<Rightarrow> ResourceInfo outcome" where
  "GetMD_response E r =
     (case r of
        Inl err \<Rightarrow> Error err
      | Inr (status, body) \<Rightarrow>
          (if status = 404 then Error NotFound
           else orUnmarshalError (unmarshalStruct E (decodeResourceInfo E) body)))"

definition GetMD :: "'f env \<Rightarrow> Context \<Rightarrow> Reference \<Rightarrow> string list \<Rightarrow> state \<Rightarrow> ResourceInfo outcome \<times> state" where
  "GetMD E ctx ref mdKeys s =
     (let bodyStr = marshalDropErr E
            (GoStruct [(''ref'', GoReference ref), (''mdKeys'', GoStrings mdKeys)])
      in apfst (GetMD_response E) (do E ctx \<lparr>verb = ''GetMD'', argS = bodyStr\<rparr> s))"

definition ListFolder_response :: "'f env \<Rightarrow> error + int \<times> bytes \<Rightarrow> ResourceInfo list outcome" where
  "ListFolder_response E r =
     (case r of
        Inl err \<Rightarrow> Error err
      | Inr (status, body) \<Rightarrow>
          (if status = 404 then Error NotFound
           else orUnmarshalError (unmarshalSlice E (decodeResourceInfo E) body)))"

definition ListFolder :: "'f env \<Rightarrow> Context \<Rightarrow> Reference \<Rightarrow> string list \<Rightarrow> state \<Rightarrow> ResourceInfo list outcome \<times> state" where
  "ListFolder E ctx ref mdKeys s =
     (case Marshal E (GoStruct [(''ref'', GoReference ref), (''mdKeys'', GoStrings mdKeys)]) of
        None \<Rightarrow> (Error MarshalError, s)
      | Some bodyStr \<Rightarrow>
          apfst (ListFolder_response E) (do E ctx \<lparr>verb = ''ListFolder'', argS = bodyStr\<rparr> s))"

definition InitiateUpload_response :: "'f env \<Rightarrow> error + int \<times> bytes \<Rightarrow> (string \<rightharpoonup> string) outcome" where
  "InitiateUpload_response E r =
     (case r of
        Inl err \<Rightarrow> Error err
      | Inr (status, respBody) \<Rightarrow>
          orUnmarshalError (unmarshalStruct E (decodeStringMap E) respBody))"

definition InitiateUpload :: "'f env \<Rightarrow> Context \<Rightarrow> Reference \<Rightarrow> 64 word \<Rightarrow> (string \<rightharpoonup> string) \<Rightarrow> state
    \<Rightarrow> (string \<rightharpoonup> string) outcome \<times> state" where
  "InitiateUpload E ctx ref uploadLength metadata s =
     (let bodyStr = marshalDropErr E
            (GoStruct [(''ref'', GoReference ref), (''uploadLength'', GoInt64 uploadLength),
                       (''metadata'', GoStringMap metadata)])
      in apfst (InitiateUpload_response E)
           (do E ctx \<lparr>verb = ''InitiateUpload'', argS = bodyStr\<rparr> s))"

text \<open>\<^verbatim>\<open>Upload\<close>, \<^verbatim>\<open>Download\<close> and \<^verbatim>\<open>DownloadRevision\<close> are the same in both revisions
  (\<^verbatim>\<open>part_000\<close> only logs more).\<close>

definition Upload :: "'f env \<Rightarrow> Context \<Rightarrow> Reference \<Rightarrow> bytes \<Rightarrow> state \<Rightarrow> unit outcome \<times> state" where
  "Upload E ctx ref r s = doUpload E ctx (ref_Path ref) r s"

definition Download :: "'f env \<Rightarrow> Context \<Rightarrow> Reference \<Rightarrow> state \<Rightarrow> bytes option outcome \<times> state" where
  "Download E ctx ref s = doDownload E ctx (ref_Path ref) s"

definition DownloadRevision :: "'f env \<Rightarrow> Context \<Rightarrow> Reference \<Rightarrow> string \<Rightarrow> state \<Rightarrow> bytes option outcome \<times> state" where
  "DownloadRevision E ctx ref key s = doDownloadRevision E ctx (ref_Path ref) key s"

text \<open>The list methods of nextcloud.go unmarshal into a slice of the result type and
  return a pointer to each element, in order.\<close>

definition List_response :: "'f env \<Rightarrow> ('f json \<Rightarrow> 'a option) \<Rightarrow> error + int \<times> bytes \<Rightarrow> 'a list outcome" where
  "List_response E dec r =
     (case r of
        Inl err \<Rightarrow> Error err
      | Inr (status, respBody) \<Rightarrow> orUnmarshalError (unmarshalSlice E dec respBody))"

definition ListRevisions :: "'f env \<Rightarrow> Context \<Rightarrow> Reference \<Rightarrow> state \<Rightarrow> FileVersion list outcome \<times> state" where
  "ListRevisions E ctx ref s =
     (let bodyStr = marshalDropErr E (GoReference ref)
      in apfst (List_response E (decodeFileVersion E))
           (do E ctx \<lparr>verb = ''ListRevisions'', argS = bodyStr\<rparr> s))"

definition RestoreRevision :: "'f env \<Rightarrow> Context \<Rightarrow> Reference \<Rightarrow> string \<Rightarrow> state \<Rightarrow> unit outcome \<times> state" where
  "RestoreRevision E ctx ref key s =
     (let bodyStr = marshalDropErr E
            (GoStruct [(''ref'', GoReference ref), (''key'', GoString key)])
      in apfst errOnly (do E ctx \<lparr>verb = ''RestoreRevision'', argS = bodyStr\<rparr> s))"

definition ListRecycle :: "'f env \<Rightarrow> Context \<Rightarrow> string \<Rightarrow> string \<Rightarrow> state \<Rightarrow> RecycleItem list outcome \<times> state" where
  "ListRecycle E ctx key path s =
     (let bodyStr = marshalDropErr E
            (GoStruct [(''key'', GoString key), (''path'', GoString path)])
      in apfst (List_response E (decodeRecycleItem E))
           (do E ctx \<lparr>verb = ''ListRecycle'', argS = bodyStr\<rparr> s))"

definition RestoreRecycleItem :: "'f env \<Rightarrow> Context \<Rightarrow> string \<Rightarrow> string \<Rightarrow> Reference \<Rightarrow> state \<Rightarrow> unit outcome \<times> state" where
  "RestoreRecycleItem E ctx key path restoreRef s =
     (let bodyStr = marshalDropErr E
            (GoStruct [(''key'', GoString key), (''path'', GoString path),
                       (''restoreRef'', GoReference restoreRef)])
      in apfst errOnly (do E ctx \<lparr>verb = ''RestoreRecycleItem'', argS = bodyStr\<rparr> s))"

definition PurgeRecycleItem :: "'f env \<Rightarrow> Context \<Rightarrow> string \<Rightarrow> string \<Rightarrow> state \<Rightarrow> unit outcome \<times> state" where
  "PurgeRecycleItem E ctx key path s =
     (let bodyStr = marshalDropErr E
            (GoStruct [(''key'', GoString key), (''path'', GoString path)])
      in apfst errOnly (do E ctx \<lparr>verb = ''PurgeRecycleItem'', argS = bodyStr\<rparr> s))"

definition EmptyRecycle :: "'f env \<Rightarrow> Context \<Rightarrow> state \<Rightarrow> unit outcome \<times> state" where
  "EmptyRecycle E ctx s = apfst errOnly (do E ctx \<lparr>verb = ''EmptyRecycle'', argS = ''''\<rparr> s)"

definition GetPathByID :: "'f env \<Rightarrow> Context \<Rightarrow> ResourceId \<Rightarrow> state \<Rightarrow> bytes outcome \<times> state" where
  "GetPathByID E ctx rid s =
     (let bodyStr = marshalDropErr E (GoResourceId rid)
      in apfst bodyString (do E ctx \<lparr>verb = ''GetPathByID'', argS = bodyStr\<rparr> s))"

definition AddGrant :: "'f env \<Rightarrow> Context \<Rightarrow> Reference \<Rightarrow> Grant \<Rightarrow> state \<Rightarrow> unit outcome \<times> state" where
  "AddGrant E ctx ref g s =
     (let bodyStr = marshalDropErr E (GoStruct [(''ref'', GoReference ref), (''g'', GoGrant g)])
      in apfst errOnly (do E ctx \<lparr>verb = ''AddGrant'', argS = bodyStr\<rparr> s))"

definition RemoveGrant :: "'f env \<Rightarrow> Context \<Rightarrow> Reference \<Rightarrow> Grant \<Rightarrow> state \<Rightarrow> unit outcome \<times> state" where
  "RemoveGrant E ctx ref g s =
     (let bodyStr = marshalDropErr E (GoStruct [(''ref'', GoReference ref), (''g'', GoGrant g)])
      in apfst errOnly (do E ctx \<lparr>verb = ''RemoveGrant'', argS = bodyStr\<rparr> s))"

definition DenyGrant :: "'f env \<Rightarrow> Context \<Rightarrow> Reference \<Rightarrow> Grantee \<Rightarrow> state \<Rightarrow> unit outcome \<times> state" where
  "DenyGrant E ctx ref g s =
     (let bodyStr = marshalDropErr E (GoStruct [(''ref'', GoReference ref), (''g'', GoGrantee g)])
      in apfst errOnly (do E ctx \<lparr>verb = ''DenyGrant'', argS = bodyStr\<rparr> s))"

definition UpdateGrant :: "'f env \<Rightarrow> Context \<Rightarrow> Reference \<Rightarrow> Grant \<Rightarrow> state \<Rightarrow> unit outcome \<times> state" where
  "UpdateGrant E ctx ref g s =
     (let bodyStr = marshalDropErr E (GoStruct [(''ref'', GoReference ref), (''g'', GoGrant g)])
      in apfst errOnly (do E ctx \<lparr>verb = ''UpdateGrant'', argS = bodyStr\<rparr> s))"

text \<open>\<^verbatim>\<open>ListGrants\<close> of nextcloud.go does not send its \<^verbatim>\<open>ref\<close>: the body is a fixed
  grant.\<close>

definition ListGrants_body :: Grant where
  "ListGrants_body =
     \<lparr>grant_Grantee = Some \<lparr>grantee_Id = Some (Grantee_UserId (Some
          \<lparr>uid_Idp = ''some-idp'', uid_OpaqueId = ''some-opaque-id'',
           uid_Type = USER_TYPE_PRIMARY\<rparr>))\<rparr>,
      grant_Permissions = Some
        \<lparr>p_AddGrant = True, p_CreateContainer = True, p_Delete = True, p_GetPath = True,
         p_GetQuota = True, p_InitiateFileDownload = True, p_InitiateFileUpload = True,
         p_ListGrants = True, p_ListContainer = False, p_ListFileVersions = False,
         p_ListRecycle = False, p_Move = False, p_RemoveGrant = False, p_PurgeRecycle = False,
         p_RestoreFileVersion = False, p_RestoreRecycleItem = False, p_Stat = False,
         p_UpdateGrant = False\<rparr>\<rparr>"

definition ListGrants :: "'f env \<Rightarrow> Context \<Rightarrow> Reference \<Rightarrow> state \<Rightarrow> Grant list outcome \<times> state" where
  "ListGrants E ctx ref s =
     (let bodyStr = marshalDropErr E (GoGrant ListGrants_body)
      in apfst (List_response E (decodeGrant E))
           (do E ctx \<lparr>verb = ''ListGrants'', argS = bodyStr\<rparr> s))"

definition GetQuota_response :: "'f env \<Rightarrow> error + int \<times> bytes \<Rightarrow> (64 word \<times> 64 word) outcome" where
  "GetQuota_response E r =
     (case r of
        Inl err \<Rightarrow> Error err
      | Inr (status, respBody) \<Rightarrow>
          (case unmarshalObject E respBody of
             None \<Rightarrow> Error UnmarshalError
           | Some respMap \<Rightarrow>
               orPanic
                 (Option.bind (asFloat64 (lookupKey respMap ''maxBytes'')) (\<lambda>maxBytes.
                  Option.bind (asFloat64 (lookupKey respMap ''maxFiles'')) (\<lambda>maxFiles.
                  Some (toUint64 E maxBytes, toUint64 E maxFiles))))))"

definition GetQuota :: "'f env \<Rightarrow> Context \<Rightarrow> state \<Rightarrow> (64 word \<times> 64 word) outcome \<times> state" where
  "GetQuota E ctx s =
     apfst (GetQuota_response E) (do E ctx \<lparr>verb = ''GetQuota'', argS = ''''\<rparr> s)"

text \<open>\<^verbatim>\<open>CreateReference\<close> takes the target as \<^verbatim>\<open>targetURI.String()\<close>.\<close>

definition CreateReference :: "'f env \<Rightarrow> Context \<Rightarrow> string \<Rightarrow> string \<Rightarrow> state \<Rightarrow> unit outcome \<times> state" where
  "CreateReference E ctx path targetURI s =
     (let bodyStr = marshalDropErr E
            (GoStruct [(''path'', GoString path), (''url'', GoString targetURI)])
      in apfst errOnly (do E ctx \<lparr>verb = ''CreateReference'', argS = bodyStr\<rparr> s))"

definition Shutdown :: "'f env \<Rightarrow> Context \<Rightarrow> state \<Rightarrow> unit outcome \<times> state" where
  "Shutdown E ctx s = apfst errOnly (do E ctx \<lparr>verb = ''Shutdown'', argS = ''''\<rparr> s)"

definition SetArbitraryMetadata :: "'f env \<Rightarrow> Context \<Rightarrow> Reference \<Rightarrow> ArbitraryMetadata \<Rightarrow> state \<Rightarrow> unit outcome \<times> state" where
  "SetArbitraryMetadata E ctx ref md s =
     (let bodyStr = marshalDropErr E
            (GoStruct [(''reference'', GoReference ref), (''metadata'', GoArbitraryMetadata md)])
      in apfst errOnly (do E ctx \<lparr>verb = ''SetArbitraryMetadata'', argS = bodyStr\<rparr> s))"

definition UnsetArbitraryMetadata :: "'f env \<Rightarrow> Context \<Rightarrow> Reference \<Rightarrow> string list \<Rightarrow> state \<Rightarrow> unit outcome \<times> state" where
  "UnsetArbitraryMetadata E ctx ref keys s =
     (let bodyStr = marshalDropErr E
            (GoStruct [(''reference'', GoReference ref), (''keys'', GoStrings keys)])
      in apfst errOnly (do E ctx \<lparr>verb = ''UnsetArbitraryMetadata'', argS = bodyStr\<rparr> s))"

text \<open>\<^verbatim>\<open>ListStorageSpaces\<close> builds each space from the decoded object; every type
  assertion in the loop can panic.\<close>

definition StorageSpace_of :: "'f env \<Rightarrow> 'f json \<Rightarrow> StorageSpace option" where
  "StorageSpace_of E x =
     Option.bind (asMap (Some x)) (\<lambda>respMap.
     Option.bind (asMap (lookupKey respMap ''opaque'')) (\<lambda>values.
     Option.bind (stringValues values) (\<lambda>strs.
     Option.bind (asString (lookupKey respMap ''opaqueId'')) (\<lambda>opaqueId.
     Option.bind (asString (lookupKey respMap ''ownerIdp'')) (\<lambda>ownerIdp.
     Option.bind (asString (lookupKey respMap ''ownerOpaqueId'')) (\<lambda>ownerOpaqueId.
     Option.bind (asString (lookupKey respMap ''rootStorageId'')) (\<lambda>rootStorageId.
     Option.bind (asString (lookupKey respMap ''rootOpaqueId'')) (\<lambda>rootOpaqueId.
     Option.bind (asString (lookupKey respMap ''name'')) (\<lambda>name.
     Option.bind (asFloat64 (lookupKey respMap ''quotaMaxBytes'')) (\<lambda>quotaMaxBytes.
     Option.bind (asFloat64 (lookupKey respMap ''quotaMaxFiles'')) (\<lambda>quotaMaxFiles.
     Option.bind (asString (lookupKey respMap ''spaceType'')) (\<lambda>spaceType.
     Option.bind (asFloat64 (lookupKey respMap ''mTimeSeconds'')) (\<lambda>mTimeSeconds.
     Some \<lparr>ss_Opaque = Some \<lparr>opaque_Map =
                 (\<lambda>k. map_option (\<lambda>v. \<lparr>oe_Value = v\<rparr>) (strs k))\<rparr>,
           ss_Id = Some \<lparr>ssid_OpaqueId = opaqueId\<rparr>,
           ss_Owner = Some \<lparr>user_Id = Some \<lparr>uid_Idp = ownerIdp,
                        uid_OpaqueId = ownerOpaqueId, uid_Type = USER_TYPE_PRIMARY\<rparr>,
                      Username = []\<rparr>,
           ss_Root = Some \<lparr>rid_StorageId = rootStorageId, rid_OpaqueId = rootOpaqueId\<rparr>,
           ss_Name = name,
           ss_Quota = Some \<lparr>QuotaMaxBytes = toUint64 E quotaMaxBytes,
                             QuotaMaxFiles = toUint64 E quotaMaxFiles\<rparr>,
           ss_SpaceType = spaceType,
           ss_Mtime = Some \<lparr>ts_Seconds = toUint64 E mTimeSeconds\<rparr>\<rparr>)))))))))))))"

definition ListStorageSpaces_response :: "'f env \<Rightarrow> error + int \<times> bytes \<Rightarrow> StorageSpace list outcome" where
  "ListStorageSpaces_response E r =
     (case r of
        Inl err \<Rightarrow> Error err
      | Inr (status, respBody) \<Rightarrow>
          (case unmarshalArray E respBody of
             None \<Rightarrow> Error UnmarshalError
           | Some respMapArr \<Rightarrow> orPanic (those (map (StorageSpace_of E) respMapArr))))"

definition ListStorageSpaces :: "'f env \<Rightarrow> Context \<Rightarrow> ListStorageSpacesRequest_Filter list \<Rightarrow> state
    \<Rightarrow> StorageSpace list outcome \<times> state" where
  "ListStorageSpaces E ctx f s =
     (let bodyStr = marshalDropErr E (GoStruct [(''filters'', GoFilters f)])
      in apfst (ListStorageSpaces_response E)
           (do E ctx \<lparr>verb = ''ListStorageSpaces'', argS = bodyStr\<rparr> s))"

subsection \<open>The methods of part_000 that differ\<close>

text \<open>\<^verbatim>\<open>CreateStorageSpace\<close>, \<^verbatim>\<open>GetHome\<close>, \<^verbatim>\<open>CreateHome\<close>, \<^verbatim>\<open>CreateDir\<close>, \<^verbatim>\<open>Delete\<close>,
  \<^verbatim>\<open>InitiateUpload\<close>, \<^verbatim>\<open>Upload\<close>, \<^verbatim>\<open>Download\<close>, \<^verbatim>\<open>DownloadRevision\<close>,
  \<^verbatim>\<open>RestoreRecycleItem\<close>, \<^verbatim>\<open>PurgeRecycleItem\<close>, \<^verbatim>\<open>EmptyRecycle\<close>, \<^verbatim>\<open>GetPathByID\<close> and
  \<^verbatim>\<open>Shutdown\<close> of \<^verbatim>\<open>part_000\<close> are the definitions above. The others follow.\<close>

definition Move_part0 :: "'f env \<Rightarrow> Context \<Rightarrow> Reference \<Rightarrow> Reference \<Rightarrow> state \<Rightarrow> unit outcome \<times> state" where
  "Move_part0 E ctx oldRef newRef s =
     (let bodyStr = marshalDropErr E
            (GoMap [(''from'', GoReference oldRef), (''to'', GoReference newRef)])
      in apfst errOnly (do E ctx \<lparr>verb = ''Move'', argS = bodyStr\<rparr> s))"

text \<open>The results of \<^verbatim>\<open>part_000\<close> are built field by field from a decoded
  \<^verbatim>\<open>map[string]interface{}\<close>; \<open>None\<close> is the panic of a failed type assertion.\<close>

definition GetMD_part0_info :: "'f env \<Rightarrow> Reference \<Rightarrow> (string \<times> 'f json) list \<Rightarrow> ResourceInfo option" where
  "GetMD_part0_info E ref respMap =
     Option.bind (asFloat64 (lookupKey respMap ''size'')) (\<lambda>sizeF.
     Option.bind (case asMap (lookupKey respMap ''metadata'') of
                    None \<Rightarrow> Some Map.empty
                  | Some mdMap \<Rightarrow> stringValues mdMap) (\<lambda>mdMapString.
     Option.bind (asString (lookupKey respMap ''path'')) (\<lambda>path.
     Option.bind (asString (lookupKey respMap ''etag'')) (\<lambda>etag.
     Option.bind (asString (lookupKey respMap ''mimetype'')) (\<lambda>mimetype.
     Some \<lparr>ri_Opaque = Some Opaque_zero,
           ri_Type = RESOURCE_TYPE_FILE,
           ri_Id = Some \<lparr>rid_StorageId = [], rid_OpaqueId = ''fileid-'' @ QueryEscape E path\<rparr>,
           ri_Checksum = Some ResourceChecksum_zero,
           ri_Etag = etag,
           ri_MimeType = mimetype,
           ri_Mtime = Some \<lparr>ts_Seconds = 1234567890\<rparr>,
           ri_Path = ref_Path ref,
           ri_PermissionSet = Some ResourcePermissions_zero,
           ri_Size = toInt E sizeF,
           ri_Owner = None,
           ri_Target = [],
           ri_CanonicalMetadata = Some CanonicalMetadata_zero,
           ri_ArbitraryMetadata = Some \<lparr>am_Metadata = mdMapString\<rparr>\<rparr>)))))"

definition GetMD_part0_response :: "'f env \<Rightarrow> Reference \<Rightarrow> error + int \<times> bytes \<Rightarrow> ResourceInfo outcome" where
  "GetMD_part0_response E ref r =
     (case r of
        Inl err \<Rightarrow> Error err
      | Inr (status, body) \<Rightarrow>
          (if status = 404 then Error NotFound
           else (case unmarshalObject E body of
                   None \<Rightarrow> Error UnmarshalError
                 | Some respMap \<Rightarrow> orPanic (GetMD_part0_info E ref respMap))))"

definition GetMD_part0 :: "'f env \<Rightarrow> Context \<Rightarrow> Reference \<Rightarrow> string list \<Rightarrow> state \<Rightarrow> ResourceInfo outcome \<times> state" where
  "GetMD_part0 E ctx ref mdKeys s =
     (let bodyStr = marshalDropErr E
            (GoStruct [(''ref'', GoReference ref), (''mdKeys'', GoStrings mdKeys)])
      in apfst (GetMD_part0_response E ref) (do E ctx \<lparr>verb = ''GetMD'', argS = bodyStr\<rparr> s))"

definition ListFolder_part0_info :: "'f env \<Rightarrow> 'f json \<Rightarrow> ResourceInfo option" where
  "ListFolder_part0_info E x =
     Option.bind (asMap (Some x)) (\<lambda>respMap.
     Option.bind (asString (lookupKey respMap ''path'')) (\<lambda>path.
     Option.bind (asString (lookupKey respMap ''etag'')) (\<lambda>etag.
     Option.bind (asString (lookupKey respMap ''mimetype'')) (\<lambda>mimetype.
     Some \<lparr>ri_Opaque = Some Opaque_zero,
           ri_Type = RESOURCE_TYPE_CONTAINER,
           ri_Id = Some \<lparr>rid_StorageId = [], rid_OpaqueId = ''fileid-'' @ QueryEscape E path\<rparr>,
           ri_Checksum = Some ResourceChecksum_zero,
           ri_Etag = etag,
           ri_MimeType = mimetype,
           ri_Mtime = Some \<lparr>ts_Seconds = 1234567890\<rparr>,
           ri_Path = ''/subdir'',
           ri_PermissionSet = Some ResourcePermissions_zero,
           ri_Size = 0,
           ri_Owner = Some \<lparr>uid_Idp = [],
                            uid_OpaqueId = ''f7fbf8c8-139b-4376-b307-cf0a8c2d0d9c'',
                            uid_Type = USER_TYPE_INVALID\<rparr>,
           ri_Target = [],
           ri_CanonicalMetadata = Some CanonicalMetadata_zero,
           ri_ArbitraryMetadata = None\<rparr>))))"

definition ListFolder_part0_response :: "'f env \<Rightarrow> error + int \<times> bytes \<Rightarrow> ResourceInfo list outcome" where
  "ListFolder_part0_response E r =
     (case r of
        Inl err \<Rightarrow> Error err
      | Inr (status, body) \<Rightarrow>
          (if status = 404 then Error NotFound
           else (case unmarshalArray E body of
                   None \<Rightarrow> Error UnmarshalError
                 | Some respMapArr \<Rightarrow> orPanic (those (map (ListFolder_part0_info E) respMapArr)))))"

definition ListFolder_part0 :: "'f env \<Rightarrow> Context \<Rightarrow> Reference \<Rightarrow> string list \<Rightarrow> state \<Rightarrow> ResourceInfo list outcome \<times> state" where
  "ListFolder_part0 E ctx ref mdKeys s =
     (case Marshal E (GoStruct [(''ref'', GoReference ref), (''mdKeys'', GoStrings mdKeys)]) of
        None \<Rightarrow> (Error MarshalError, s)
      | Some bodyStr \<Rightarrow>
          apfst (ListFolder_part0_response E)
            (do E ctx \<lparr>verb = ''ListFolder'', argS = bodyStr\<rparr> s))"

text \<open>The other list methods of \<^verbatim>\<open>part_000\<close>: unmarshal into \<^verbatim>\<open>[]interface{}\<close>, then
  build one result per element.\<close>

definition List_part0_response :: "'f env \<Rightarrow> ('f json \<Rightarrow> 'a option) \<Rightarrow> error + int \<times> bytes \<Rightarrow> 'a list outcome" where
  "List_part0_response E build r =
     (case r of
        Inl err \<Rightarrow> Error err
      | Inr (status, respBody) \<Rightarrow>
          (case unmarshalArray E respBody of
             None \<Rightarrow> Error UnmarshalError
           | Some respMapArr \<Rightarrow> orPanic (those (map build respMapArr))))"

definition ListRevisions_part0_version :: "'f env \<Rightarrow> 'f json \<Rightarrow> FileVersion option" where
  "ListRevisions_part0_version E x =
     Option.bind (asMap (Some x)) (\<lambda>respMap.
     Option.bind (asString (lookupKey respMap ''key'')) (\<lambda>key.
     Option.bind (asFloat64 (lookupKey respMap ''size'')) (\<lambda>size.
     Option.bind (asFloat64 (lookupKey respMap ''mtime'')) (\<lambda>mtime.
     Option.bind (asString (lookupKey respMap ''etag'')) (\<lambda>etag.
     Some \<lparr>fv_Opaque = Some Opaque_zero,
           fv_Key = key,
           fv_Size = toUint64 E size,
           fv_Mtime = toUint64 E mtime,
           fv_Etag = etag\<rparr>)))))"

definition ListRevisions_part0 :: "'f env \<Rightarrow> Context \<Rightarrow> Reference \<Rightarrow> state \<Rightarrow> FileVersion list outcome \<times> state" where
  "ListRevisions_part0 E ctx ref s =
     (let bodyStr = marshalDropErr E (GoReference ref)
      in apfst (List_part0_response E (ListRevisions_part0_version E))
           (do E ctx \<lparr>verb = ''ListRevisions'', argS = bodyStr\<rparr> s))"

definition RestoreRevision_part0 :: "'f env \<Rightarrow> Context \<Rightarrow> Reference \<Rightarrow> string \<Rightarrow> state \<Rightarrow> unit outcome \<times> state" where
  "RestoreRevision_part0 E ctx ref key s =
     (let bodyStr = marshalDropErr E
            (GoStruct [(''path'', GoString (ref_Path ref)), (''key'', GoString key)])
      in apfst errOnly (do E ctx \<lparr>verb = ''RestoreRevision'', argS = bodyStr\<rparr> s))"

definition ListRecycle_part0_item :: "'f env \<Rightarrow> string \<Rightarrow> 'f json \<Rightarrow> RecycleItem option" where
  "ListRecycle_part0_item E path x =
     Option.bind (asMap (Some x)) (\<lambda>respMap.
     Option.bind (asString (lookupKey respMap ''key'')) (\<lambda>key.
     Option.bind (asFloat64 (lookupKey respMap ''size'')) (\<lambda>size.
     Option.bind (asFloat64 (lookupKey respMap ''deletionTime'')) (\<lambda>deletionTime.
     Some \<lparr>rc_Opaque = Some Opaque_zero,
           rc_Key = key,
           rc_Ref = Some \<lparr>ref_ResourceId = Some ResourceId_zero, ref_Path = path\<rparr>,
           rc_Size = toUint64 E size,
           rc_DeletionTime = Some \<lparr>ts_Seconds = toUint64 E deletionTime\<rparr>\<rparr>))))"

definition ListRecycle_part0 :: "'f env \<Rightarrow> Context \<Rightarrow> string \<Rightarrow> string \<Rightarrow> state \<Rightarrow> RecycleItem list outcome \<times> state" where
  "ListRecycle_part0 E ctx key path s =
     (let bodyStr = marshalDropErr E
            (GoStruct [(''path'', GoString path), (''key'', GoString key)])
      in apfst (List_part0_response E (ListRecycle_part0_item E path))
           (do E ctx \<lparr>verb = ''ListRecycle'', argS = bodyStr\<rparr> s))"

definition AddGrant_part0 :: "'f env \<Rightarrow> Context \<Rightarrow> Reference \<Rightarrow> Grant \<Rightarrow> state \<Rightarrow> unit outcome \<times> state" where
  "AddGrant_part0 E ctx ref g s =
     (let bodyStr = marshalDropErr E
            (GoStruct [(''reference'', GoReference ref), (''grant'', GoGrant g)])
      in apfst errOnly (do E ctx \<lparr>verb = ''AddGrant'', argS = bodyStr\<rparr> s))"

definition RemoveGrant_part0 :: "'f env \<Rightarrow> Context \<Rightarrow> Reference \<Rightarrow> Grant \<Rightarrow> state \<Rightarrow> unit outcome \<times> state" where
  "RemoveGrant_part0 E ctx ref g s =
     (let bodyStr = marshalDropErr E
            (GoStruct [(''reference'', GoReference ref), (''grant'', GoGrant g)])
      in apfst errOnly (do E ctx \<lparr>verb = ''RemoveGrant'', argS = bodyStr\<rparr> s))"

definition DenyGrant_part0 :: "'f env \<Rightarrow> Context \<Rightarrow> Reference \<Rightarrow> Grantee \<Rightarrow> state \<Rightarrow> unit outcome \<times> state" where
  "DenyGrant_part0 E ctx ref g s =
     (let bodyStr = marshalDropErr E
            (GoStruct [(''reference'', GoReference ref), (''grantee'', GoGrantee g)])
      in apfst errOnly (do E ctx \<lparr>verb = ''DenyGrant'', argS = bodyStr\<rparr> s))"

definition UpdateGrant_part0 :: "'f env \<Rightarrow> Context \<Rightarrow> Reference \<Rightarrow> Grant \<Rightarrow> state \<Rightarrow> unit outcome \<times> state" where
  "UpdateGrant_part0 E ctx ref g s =
     (let bodyStr = marshalDropErr E
            (GoStruct [(''reference'', GoReference ref), (''grant'', GoGrant g)])
      in apfst errOnly (do E ctx \<lparr>verb = ''UpdateGrant'', argS = bodyStr\<rparr> s))"

definition ListGrants_part0_perms :: "(string \<times> 'f json) list \<Rightarrow> ResourcePermissions option" where
  "ListGrants_part0_perms permsMap =
     Option.bind (asBool (lookupKey permsMap ''add_grant'')) (\<lambda>add_grant.
     Option.bind (asBool (lookupKey permsMap ''create_container'')) (\<lambda>create_container.
     Option.bind (asBool (lookupKey permsMap ''delete'')) (\<lambda>delete.
     Option.bind (asBool (lookupKey permsMap ''get_path'')) (\<lambda>get_path.
     Option.bind (asBool (lookupKey permsMap ''get_quota'')) (\<lambda>get_quota.
     Option.bind (asBool (lookupKey permsMap ''initiate_file_download'')) (\<lambda>initiate_file_download.
     Option.bind (asBool (lookupKey permsMap ''initiate_file_upload'')) (\<lambda>initiate_file_upload.
     Option.bind (asBool (lookupKey permsMap ''list_grants'')) (\<lambda>list_grants.
     Option.bind (asBool (lookupKey permsMap ''list_container'')) (\<lambda>list_container.
     Option.bind (asBool (lookupKey permsMap ''list_file_versions'')) (\<lambda>list_file_versions.
     Option.bind (asBool (lookupKey permsMap ''list_recycle'')) (\<lambda>list_recycle.
     Option.bind (asBool (lookupKey permsMap ''move'')) (\<lambda>move.
     Option.bind (asBool (lookupKey permsMap ''remove_grant'')) (\<lambda>remove_grant.
     Option.bind (asBool (lookupKey permsMap ''purge_recycle'')) (\<lambda>purge_recycle.
     Option.bind (asBool (lookupKey permsMap ''restore_file_version'')) (\<lambda>restore_file_version.
     Option.bind (asBool (lookupKey permsMap ''restore_recycle_item'')) (\<lambda>restore_recycle_item.
     Option.bind (asBool (lookupKey permsMap ''stat'')) (\<lambda>stat.
     Option.bind (asBool (lookupKey permsMap ''update_grant'')) (\<lambda>update_grant.
     Some \<lparr>p_AddGrant = add_grant, p_CreateContainer = create_container, p_Delete = delete,
           p_GetPath = get_path, p_GetQuota = get_quota,
           p_InitiateFileDownload = initiate_file_download,
           p_InitiateFileUpload = initiate_file_upload, p_ListGrants = list_grants,
           p_ListContainer = list_container, p_ListFileVersions = list_file_versions,
           p_ListRecycle = list_recycle, p_Move = move, p_RemoveGrant = remove_grant,
           p_PurgeRecycle = purge_recycle, p_RestoreFileVersion = restore_file_version,
           p_RestoreRecycleItem = restore_recycle_item, p_Stat = stat,
           p_UpdateGrant = update_grant\<rparr>))))))))))))))))))"

definition ListGrants_part0_grant :: "'f json \<Rightarrow> Grant option" where
  "ListGrants_part0_grant x =
     Option.bind (asMap (Some x)) (\<lambda>respMap.
     Option.bind (asMap (lookupKey respMap ''permissions'')) (\<lambda>permsMap.
     Option.bind (asMap (lookupKey respMap ''grantee'')) (\<lambda>granteeMap.
     Option.bind (asMap (lookupKey granteeMap ''Id'')) (\<lambda>granteeIdMap.
     Option.bind (asMap (lookupKey granteeIdMap ''UserId'')) (\<lambda>granteeIdUserIdMap.
     Option.bind (asString (lookupKey granteeIdUserIdMap ''idp'')) (\<lambda>idp.
     Option.bind (asString (lookupKey granteeIdUserIdMap ''opaque_id'')) (\<lambda>opaque_id.
     Option.bind (ListGrants_part0_perms permsMap) (\<lambda>perms.
     Some \<lparr>grant_Grantee = Some \<lparr>grantee_Id = Some (Grantee_UserId (Some
                \<lparr>uid_Idp = idp, uid_OpaqueId = opaque_id, uid_Type = USER_TYPE_PRIMARY\<rparr>))\<rparr>,
           grant_Permissions = Some perms\<rparr>))))))))"

definition ListGrants_part0 :: "'f env \<Rightarrow> Context \<Rightarrow> Reference \<Rightarrow> state \<Rightarrow> Grant list outcome \<times> state" where
  "ListGrants_part0 E ctx ref s =
     (let bodyStr = marshalDropErr E (GoReference ref)
      in apfst (List_part0_response E ListGrants_part0_grant)
           (do E ctx \<lparr>verb = ''ListGrants'', argS = bodyStr\<rparr> s))"

text \<open>\<^verbatim>\<open>GetQuota\<close> of \<^verbatim>\<open>part_000\<close> does not look at the error of \<^verbatim>\<open>do\<close>: it unmarshals
  \<^verbatim>\<open>respBody\<close> in every case and reads the keys \<^verbatim>\<open>total\<close> and \<^verbatim>\<open>used\<close>.\<close>

definition GetQuota_part0_response :: "'f env \<Rightarrow> error + int \<times> bytes \<Rightarrow> (64 word \<times> 64 word) outcome" where
  "GetQuota_part0_response E r =
     (case unmarshalObject E (bodyOf r) of
        None \<Rightarrow> Error UnmarshalError
      | Some respMap \<Rightarrow>
          orPanic
            (Option.bind (asFloat64 (lookupKey respMap ''total'')) (\<lambda>total.
             Option.bind (asFloat64 (lookupKey respMap ''used'')) (\<lambda>used.
             Some (toUint64 E total, toUint64 E used)))))"

definition GetQuota_part0 :: "'f env \<Rightarrow> Context \<Rightarrow> state \<Rightarrow> (64 word \<times> 64 word) outcome \<times> state" where
  "GetQuota_part0 E ctx s =
     apfst (GetQuota_part0_response E) (do E ctx \<lparr>verb = ''GetQuota'', argS = ''''\<rparr> s)"

text \<open>\<^verbatim>\<open>CreateReference\<close> of \<^verbatim>\<open>part_000\<close> formats the body itself,
  \<^verbatim>\<open>fmt.Sprintf(`{"path":"%s"}`, path)\<close>, and does not send the target.\<close>

definition CreateReference_part0 :: "'f env \<Rightarrow> Context \<Rightarrow> string \<Rightarrow> string \<Rightarrow> state \<Rightarrow> unit outcome \<times> state" where
  \<open>CreateReference_part0 E ctx path targetURI s =
     (let bodyStr = ''{"path":"'' @ path @ ''"}''
      in apfst errOnly (do E ctx \<lparr>verb = ''CreateReference'', argS = bodyStr\<rparr> s))\<close>

definition SetArbitraryMetadata_part0 :: "'f env \<Rightarrow> Context \<Rightarrow> Reference \<Rightarrow> ArbitraryMetadata \<Rightarrow> state \<Rightarrow> unit outcome \<times> state" where
  "SetArbitraryMetadata_part0 E ctx ref md s =
     (let bodyStr = marshalDropErr E (GoArbitraryMetadata md)
      in apfst errOnly (do E ctx \<lparr>verb = ''SetArbitraryMetadata'', argS = bodyStr\<rparr> s))"

definition UnsetArbitraryMetadata_part0 :: "'f env \<Rightarrow> Context \<Rightarrow> Reference \<Rightarrow> string list \<Rightarrow> state \<Rightarrow> unit outcome \<times> state" where
  "UnsetArbitraryMetadata_part0 E ctx ref keys s =
     (let bodyStr = marshalDropErr E (GoReference ref)
      in apfst errOnly (do E ctx \<lparr>verb = ''UnsetArbitraryMetadata'', argS = bodyStr\<rparr> s))"

text \<open>\<^verbatim>\<open>ListStorageSpaces\<close> of \<^verbatim>\<open>part_000\<close> returns \<^verbatim>\<open>nil, err\<close>.\<close>

fun noSpaces :: "error + 'a \<Rightarrow> StorageSpace list outcome" where
  "noSpaces (Inr v) = Return []"
| "noSpaces (Inl e) = Error e"

definition ListStorageSpaces_part0 :: "'f env \<Rightarrow> Context \<Rightarrow> ListStorageSpacesRequest_Filter list \<Rightarrow> state
    \<Rightarrow> StorageSpace list outcome \<times> state" where
  "ListStorageSpaces_part0 E ctx f s =
     apfst noSpaces (do E ctx \<lparr>verb = ''ListStorageSpaces'', argS = ''''\<rparr> s)"

subsection \<open>The storage.FS interface as one function\<close>

text \<open>A call of the interface with its arguments, and the value it returns beside a
  nil error. \<open>callFS\<close> dispatches a call to the method of the chosen revision, so that
  a statement about every operation is a statement about \<open>callFS\<close>.\<close>

datatype revision = Nextcloud_go | Part_000

datatype call =
    OpCreateStorageSpace
  | OpGetHome
  | OpCreateHome
  | OpCreateDir Reference
  | OpDelete Reference
  | OpMove Reference Reference
  | OpGetMD Reference "string list"
  | OpListFolder Reference "string list"
  | OpInitiateUpload Reference "64 word" "string \<rightharpoonup> string"
  | OpUpload Reference bytes
  | OpDownload Reference
  | OpListRevisions Reference
  | OpDownloadRevision Reference string
  | OpRestoreRevision Reference string
  | OpListRecycle string string
  | OpRestoreRecycleItem string string Reference
  | OpPurgeRecycleItem string string
  | OpEmptyRecycle
  | OpGetPathByID ResourceId
  | OpAddGrant Reference Grant
  | OpRemoveGrant Reference Grant
  | OpDenyGrant Reference Grantee
  | OpUpdateGrant Reference Grant
  | OpListGrants Reference
  | OpGetQuota
  | OpCreateReference string string
  | OpShutdown
  | OpSetArbitraryMetadata Reference ArbitraryMetadata
  | OpUnsetArbitraryMetadata Reference "string list"
  | OpListStorageSpaces "ListStorageSpacesRequest_Filter list"

datatype ret =
    RetNone
  | RetString bytes
  | RetResourceInfo ResourceInfo
  | RetResourceInfos "ResourceInfo list"
  | RetStringMap "string \<rightharpoonup> string"
  | RetStream "bytes option"
  | RetFileVersions "FileVersion list"
  | RetRecycleItems "RecycleItem list"
  | RetGrants "Grant list"
  | RetQuota "64 word \<times> 64 word"
  | RetStorageSpaces "StorageSpace list"

fun mapReturn :: "('a \<Rightarrow> 'b) \<Rightarrow> 'a outcome \<Rightarrow> 'b outcome" where
  "mapReturn f (Return v) = Return (f v)"
| "mapReturn f (Error e) = Error e"
| "mapReturn f Panic = Panic"

definition returning :: "('a \<Rightarrow> ret) \<Rightarrow> 'a outcome \<times> state \<Rightarrow> ret outcome \<times> state" where
  "returning f p = apfst (mapReturn f) p"

definition noValue :: "unit \<Rightarrow> ret" where
  "noValue u = RetNone"

fun call_nextcloud_go :: "'f env \<Rightarrow> Context \<Rightarrow> call \<Rightarrow> state \<Rightarrow> ret outcome \<times> state" where
  "call_nextcloud_go E ctx OpCreateStorageSpace s = returning noValue (CreateStorageSpace ctx s)"
| "call_nextcloud_go E ctx OpGetHome s = returning RetString (GetHome E ctx s)"
| "call_nextcloud_go E ctx OpCreateHome s = returning noValue (CreateHome E ctx s)"
| "call_nextcloud_go E ctx (OpCreateDir ref) s = returning noValue (CreateDir E ctx ref s)"
| "call_nextcloud_go E ctx (OpDelete ref) s = returning noValue (Delete E ctx ref s)"
| "call_nextcloud_go E ctx (OpMove oldRef newRef) s = returning noValue (Move E ctx oldRef newRef s)"
| "call_nextcloud_go E ctx (OpGetMD ref mdKeys) s = returning RetResourceInfo (GetMD E ctx ref mdKeys s)"
| "call_nextcloud_go E ctx (OpListFolder ref mdKeys) s =
     returning RetResourceInfos (ListFolder E ctx ref mdKeys s)"
| "call_nextcloud_go E ctx (OpInitiateUpload ref n md) s =
     returning RetStringMap (InitiateUpload E ctx ref n md s)"
| "call_nextcloud_go E ctx (OpUpload ref r) s = returning noValue (Upload E ctx ref r s)"
| "call_nextcloud_go E ctx (OpDownload ref) s = returning RetStream (Download E ctx ref s)"
| "call_nextcloud_go E ctx (OpListRevisions ref) s = returning RetFileVersions (ListRevisions E ctx ref s)"
| "call_nextcloud_go E ctx (OpDownloadRevision ref key) s =
     returning RetStream (DownloadRevision E ctx ref key s)"
| "call_nextcloud_go E ctx (OpRestoreRevision ref key) s =
     returning noValue (RestoreRevision E ctx ref key s)"
| "call_nextcloud_go E ctx (OpListRecycle key path) s =
     returning RetRecycleItems (ListRecycle E ctx key path s)"
| "call_nextcloud_go E ctx (OpRestoreRecycleItem key path ref) s =
     returning noValue (RestoreRecycleItem E ctx key path ref s)"
| "call_nextcloud_go E ctx (OpPurgeRecycleItem key path) s =
     returning noValue (PurgeRecycleItem E ctx key path s)"
| "call_nextcloud_go E ctx OpEmptyRecycle s = returning noValue (EmptyRecycle E ctx s)"
| "call_nextcloud_go E ctx (OpGetPathByID rid) s = returning RetString (GetPathByID E ctx rid s)"
| "call_nextcloud_go E ctx (OpAddGrant ref g) s = returning noValue (AddGrant E ctx ref g s)"
| "call_nextcloud_go E ctx (OpRemoveGrant ref g) s = returning noValue (RemoveGrant E ctx ref g s)"
| "call_nextcloud_go E ctx (OpDenyGrant ref g) s = returning noValue (DenyGrant E ctx ref g s)"
| "call_nextcloud_go E ctx (OpUpdateGrant ref g) s = returning noValue (UpdateGrant E ctx ref g s)"
| "call_nextcloud_go E ctx (OpListGrants ref) s = returning RetGrants (ListGrants E ctx ref s)"
| "call_nextcloud_go E ctx OpGetQuota s = returning RetQuota (GetQuota E ctx s)"
| "call_nextcloud_go E ctx (OpCreateReference path targetURI) s =
     returning noValue (CreateReference E ctx path targetURI s)"
| "call_nextcloud_go E ctx OpShutdown s = returning noValue (Shutdown E ctx s)"
| "call_nextcloud_go E ctx (OpSetArbitraryMetadata ref md) s =
     returning noValue (SetArbitraryMetadata E ctx ref md s)"
| "call_nextcloud_go E ctx (OpUnsetArbitraryMetadata ref keys) s =
     returning noValue (UnsetArbitraryMetadata E ctx ref keys s)"
| "call_nextcloud_go E ctx (OpListStorageSpaces f) s =
     returning RetStorageSpaces (ListStorageSpaces E ctx f s)"

fun call_part_000 :: "'f env \<Rightarrow> Context \<Rightarrow> call \<Rightarrow> state \<Rightarrow> ret outcome \<times> state" where
  "call_part_000 E ctx OpCreateStorageSpace s = returning noValue (CreateStorageSpace ctx s)"
| "call_part_000 E ctx OpGetHome s = returning RetString (GetHome E ctx s)"
| "call_part_000 E ctx OpCreateHome s = returning noValue (CreateHome E ctx s)"
| "call_part_000 E ctx (OpCreateDir ref) s = returning noValue (CreateDir E ctx ref s)"
| "call_part_000 E ctx (OpDelete ref) s = returning noValue (Delete E ctx ref s)"
| "call_part_000 E ctx (OpMove oldRef newRef) s = returning noValue (Move_part0 E ctx oldRef newRef s)"
| "call_part_000 E ctx (OpGetMD ref mdKeys) s = returning RetResourceInfo (GetMD_part0 E ctx ref mdKeys s)"
| "call_part_000 E ctx (OpListFolder ref mdKeys) s =
     returning RetResourceInfos (ListFolder_part0 E ctx ref mdKeys s)"
| "call_part_000 E ctx (OpInitiateUpload ref n md) s =
     returning RetStringMap (InitiateUpload E ctx ref n md s)"
| "call_part_000 E ctx (OpUpload ref r) s = returning noValue (Upload E ctx ref r s)"
| "call_part_000 E ctx (OpDownload ref) s = returning RetStream (Download E ctx ref s)"
| "call_part_000 E ctx (OpListRevisions ref) s =
     returning RetFileVersions (ListRevisions_part0 E ctx ref s)"
| "call_part_000 E ctx (OpDownloadRevision ref key) s =
     returning RetStream (DownloadRevision E ctx ref key s)"
| "call_part_000 E ctx (OpRestoreRevision ref key) s =
     returning noValue (RestoreRevision_part0 E ctx ref key s)"
| "call_part_000 E ctx (OpListRecycle key path) s =
     returning RetRecycleItems (ListRecycle_part0 E ctx key path s)"
| "call_part_000 E ctx (OpRestoreRecycleItem key path ref) s =
     returning noValue (RestoreRecycleItem E ctx key path ref s)"
| "call_part_000 E ctx (OpPurgeRecycleItem key path) s =
     returning noValue (PurgeRecycleItem E ctx key path s)"
| "call_part_000 E ctx OpEmptyRecycle s = returning noValue (EmptyRecycle E ctx s)"
| "call_part_000 E ctx (OpGetPathByID rid) s = returning RetString (GetPathByID E ctx rid s)"
| "call_part_000 E ctx (OpAddGrant ref g) s = returning noValue (AddGrant_part0 E ctx ref g s)"
| "call_part_000 E ctx (OpRemoveGrant ref g) s = returning noValue (RemoveGrant_part0 E ctx ref g s)"
| "call_part_000 E ctx (OpDenyGrant ref g) s = returning noValue (DenyGrant_part0 E ctx ref g s)"
| "call_part_000 E ctx (OpUpdateGrant ref g) s = returning noValue (UpdateGrant_part0 E ctx ref g s)"
| "call_part_000 E ctx (OpListGrants ref) s = returning RetGrants (ListGrants_part0 E ctx ref s)"
| "call_part_000 E ctx OpGetQuota s = returning RetQuota (GetQuota_part0 E ctx s)"
| "call_part_000 E ctx (OpCreateReference path targetURI) s =
     returning noValue (CreateReference_part0 E ctx path targetURI s)"
| "call_part_000 E ctx OpShutdown s = returning noValue (Shutdown E ctx s)"
| "call_part_000 E ctx (OpSetArbitraryMetadata ref md) s =
     returning noValue (SetArbitraryMetadata_part0 E ctx ref md s)"
| "call_part_000 E ctx (OpUnsetArbitraryMetadata ref keys) s =
     returning noValue (UnsetArbitraryMetadata_part0 E ctx ref keys s)"
| "call_part_000 E ctx (OpListStorageSpaces f) s =
     returning RetStorageSpaces (ListStorageSpaces_part0 E ctx f s)"

definition callFS :: "revision \<Rightarrow> 'f env \<Rightarrow> Context \<Rightarrow> call \<Rightarrow> state \<Rightarrow> ret outcome \<times> state" where
  "callFS v E ctx c s =
     (case v of
        Nextcloud_go \<Rightarrow> call_nextcloud_go E ctx c s
      | Part_000 \<Rightarrow> call_part_000 E ctx c s)"

subsection \<open>Example environment\<close>

text \<open>One behaviour of the libraries, for evaluating the methods on concrete calls.
  Numbers are whole (\<open>'f\<close> is \<open>int\<close>). \<open>noCTLByte\<close> is the first check of \<^verbatim>\<open>url.Parse\<close>
  (a URL with an ASCII control byte is rejected); \<open>exampleQueryEscape\<close> is
  \<^verbatim>\<open>url.QueryEscape\<close> on strings of letters, digits, dots and slashes;
  \<open>exampleMarshal\<close> and \<open>exampleParse\<close> list what encoding/json produces for the values
  and the bodies of the examples. The decoders into protobuf structs are not used by
  the examples.\<close>

definition noCTLByte :: "string \<Rightarrow> bool" where
  "noCTLByte u = list_all (\<lambda>c. 32 \<le> (of_char c :: nat) \<and> (of_char c :: nat) \<noteq> 127) u"

definition exampleQueryEscape :: "string \<Rightarrow> string" where
  "exampleQueryEscape x = concat (map (\<lambda>c. if c = CHR ''/'' then ''%2F'' else [c]) x)"

definition refA :: Reference where
  "refA = \<lparr>ref_ResourceId = None, ref_Path = ''/a''\<rparr>"

definition refB :: Reference where
  "refB = \<lparr>ref_ResourceId = None, ref_Path = ''/b''\<rparr>"

definition exampleMarshal :: "goval \<Rightarrow> bytes option" where
  \<open>exampleMarshal x =
     (if x = GoStruct [(''oldRef'', GoReference refA), (''newRef'', GoReference refB)]
      then Some ''{"oldRef":{"path":"/a"},"newRef":{"path":"/b"}}''
      else if x = GoMap [(''from'', GoReference refA), (''to'', GoReference refB)]
      then Some ''{"from":{"path":"/a"},"to":{"path":"/b"}}''
      else if x = GoStruct [(''ref'', GoReference refA), (''mdKeys'', GoStrings [])]
      then Some ''{"ref":{"path":"/a"},"mdKeys":[]}''
      else if x = GoReference refA
      then Some ''{"path":"/a"}''
      else None)\<close>

definition exampleParse :: "bytes \<Rightarrow> int json option" where
  \<open>exampleParse b =
     (if b = ''{"maxBytes":1000,"maxFiles":10}''
      then Some (JObj [(''maxBytes'', JNum 1000), (''maxFiles'', JNum 10)])
      else if b = ''[{"path":"/a/welcome.txt","etag":"e1","mimetype":"text/plain"}]''
      then Some (JArr [JObj [(''path'', JStr ''/a/welcome.txt''), (''etag'', JStr ''e1''),
                             (''mimetype'', JStr ''text/plain'')]])
      else if b = ''{"total":1000,"used":10}''
      then Some (JObj [(''total'', JNum 1000), (''used'', JNum 10)])
      else if b = ''{"size":12,"path":"/a/welcome.txt","etag":"e1","mimetype":"text/plain"}''
      then Some (JObj [(''size'', JNum 12), (''path'', JStr ''/a/welcome.txt''),
                       (''etag'', JStr ''e1''), (''mimetype'', JStr ''text/plain'')])
      else if b = ''{}''
      then Some (JObj [])
      else None)\<close>

definition exampleEnv :: "int env" where
  "exampleEnv =
     \<lparr>urlParse = noCTLByte,
      QueryEscape = exampleQueryEscape,
      Marshal = exampleMarshal,
      Parse = exampleParse,
      toUint64 = word_of_int,
      toInt = word_of_int,
      decodeResourceInfo = (\<lambda>j. None),
      decodeFileVersion = (\<lambda>j. None),
      decodeRecycleItem = (\<lambda>j. None),
      decodeGrant = (\<lambda>j. None),
      decodeStringMap = (\<lambda>j. None)\<rparr>"

text \<open>A server that answers every request with the given status and body, and a
  client whose round trip fails.\<close>

definition answering :: "int \<Rightarrow> bytes \<Rightarrow> http_client" where
  "answering status b req = Some \<lparr>StatusCode = status, Body = Some b\<rparr>"

definition unreachable :: http_client where
  "unreachable req = None"

definition driverWith :: "http_client \<Rightarrow> state" where
  "driverWith c = \<lparr>nc = \<lparr>endPoint = ''http://nc/apps/sciencemesh/'', client = c\<rparr>, wire = []\<rparr>"

definition alice :: User where
  "alice = \<lparr>user_Id = None, Username = ''alice''\<rparr>"

text \<open>A user whose name ends in a line feed: \<^verbatim>\<open>url.Parse\<close> rejects every URL with it.\<close>

definition mallory :: User where
  "mallory = \<lparr>user_Id = None, Username = ''mallory'' @ [CHR 0x0A]\<rparr>"

subsection \<open>What a call does to the state\<close>

text \<open>\<open>extends s s'\<close>: \<open>s'\<close> is \<open>s\<close> with at most one more request on the wire, whose URL
  starts with the end point of the driver; nothing else of the state differs.\<close>

definition extends :: "state \<Rightarrow> state \<Rightarrow> bool" where
  "extends s s' =
     (\<exists>rs. s' = s\<lparr>wire := wire s @ rs\<rparr> \<and> length rs \<le> 1
           \<and> list_all (\<lambda>r. prefix (endPoint (nc s)) (reqURL r)) rs)"

text \<open>The request line: what two requests share when only their bodies differ.\<close>

definition reqLine :: "request \<Rightarrow> http_method \<times> string \<times> string option" where
  "reqLine r = (reqMethod r, reqURL r, reqContentType r)"

subsection \<open>Comparing the two revisions\<close>

text \<open>\<open>sameText c\<close>: the method behind \<open>c\<close> has the same statements in both revisions
  (up to logging). \<open>sameRequest c\<close>: the two revisions build the request of \<open>c\<close> by the
  same statements, whatever they do with the response.\<close>

fun sameText :: "call \<Rightarrow> bool" where
  "sameText OpCreateStorageSpace = True"
| "sameText OpGetHome = True"
| "sameText OpCreateHome = True"
| "sameText (OpCreateDir ref) = True"
| "sameText (OpDelete ref) = True"
| "sameText (OpInitiateUpload ref n md) = True"
| "sameText (OpUpload ref r) = True"
| "sameText (OpDownload ref) = True"
| "sameText (OpDownloadRevision ref key) = True"
| "sameText (OpRestoreRecycleItem key path ref) = True"
| "sameText (OpPurgeRecycleItem key path) = True"
| "sameText OpEmptyRecycle = True"
| "sameText (OpGetPathByID rid) = True"
| "sameText OpShutdown = True"
| "sameText c = False"

fun sameRequest :: "call \<Rightarrow> bool" where
  "sameRequest (OpGetMD ref mdKeys) = True"
| "sameRequest (OpListFolder ref mdKeys) = True"
| "sameRequest (OpListRevisions ref) = True"
| "sameRequest OpGetQuota = True"
| "sameRequest c = sameText c"

text \<open>\<open>usesDo c\<close>: the method behind \<open>c\<close> sends its request through \<^verbatim>\<open>do\<close> (in both
  revisions); the others are the stub \<^verbatim>\<open>CreateStorageSpace\<close> and the three methods over
  \<^verbatim>\<open>doUpload\<close>, \<^verbatim>\<open>doDownload\<close> and \<^verbatim>\<open>doDownloadRevision\<close>.\<close>

fun usesDo :: "call \<Rightarrow> bool" where
  "usesDo OpCreateStorageSpace = False"
| "usesDo (OpUpload ref r) = False"
| "usesDo (OpDownload ref) = False"
| "usesDo (OpDownloadRevision ref key) = False"
| "usesDo c = True"

text \<open>The request each method builds, read off its source: \<open>apiPath\<close> is what follows
  \<^verbatim>\<open>/api/\<close> in the URL (the verb of the \<^verbatim>\<open>Action\<close>, or the path the upload and
  download helpers append), \<open>requestLine\<close> the HTTP method and the Content-Type of the
  helper the method calls. \<open>checkedMarshal\<close> is the value whose \<^verbatim>\<open>json.Marshal\<close> error
  the method returns instead of dropping it (\<^verbatim>\<open>CreateDir\<close>, \<^verbatim>\<open>Delete\<close>, \<^verbatim>\<open>ListFolder\<close>),
  and \<open>marshalFails\<close> says that this call of \<^verbatim>\<open>json.Marshal\<close> reports an error. All
  four are the same for both revisions.\<close>

fun apiPath :: "'f env \<Rightarrow> call \<Rightarrow> string" where
  "apiPath E OpCreateStorageSpace = []"
| "apiPath E OpGetHome = ''GetHome''"
| "apiPath E OpCreateHome = ''CreateHome''"
| "apiPath E (OpCreateDir ref) = ''CreateDir''"
| "apiPath E (OpDelete ref) = ''Delete''"
| "apiPath E (OpMove oldRef newRef) = ''Move''"
| "apiPath E (OpGetMD ref mdKeys) = ''GetMD''"
| "apiPath E (OpListFolder ref mdKeys) = ''ListFolder''"
| "apiPath E (OpInitiateUpload ref n md) = ''InitiateUpload''"
| "apiPath E (OpUpload ref r) = ''Upload/'' @ ref_Path ref"
| "apiPath E (OpDownload ref) = ''Download/'' @ ref_Path ref"
| "apiPath E (OpListRevisions ref) = ''ListRevisions''"
| "apiPath E (OpDownloadRevision ref key) =
     ''DownloadRevision/'' @ QueryEscape E key @ ''/'' @ ref_Path ref"
| "apiPath E (OpRestoreRevision ref key) = ''RestoreRevision''"
| "apiPath E (OpListRecycle key path) = ''ListRecycle''"
| "apiPath E (OpRestoreRecycleItem key path ref) = ''RestoreRecycleItem''"
| "apiPath E (OpPurgeRecycleItem key path) = ''PurgeRecycleItem''"
| "apiPath E OpEmptyRecycle = ''EmptyRecycle''"
| "apiPath E (OpGetPathByID rid) = ''GetPathByID''"
| "apiPath E (OpAddGrant ref g) = ''AddGrant''"
| "apiPath E (OpRemoveGrant ref g) = ''RemoveGrant''"
| "apiPath E (OpDenyGrant ref g) = ''DenyGrant''"
| "apiPath E (OpUpdateGrant ref g) = ''UpdateGrant''"
| "apiPath E (OpListGrants ref) = ''ListGrants''"
| "apiPath E OpGetQuota = ''GetQuota''"
| "apiPath E (OpCreateReference path targetURI) = ''CreateReference''"
| "apiPath E OpShutdown = ''Shutdown''"
| "apiPath E (OpSetArbitraryMetadata ref md) = ''SetArbitraryMetadata''"
| "apiPath E (OpUnsetArbitraryMetadata ref keys) = ''UnsetArbitraryMetadata''"
| "apiPath E (OpListStorageSpaces f) = ''ListStorageSpaces''"

fun requestLine :: "call \<Rightarrow> http_method \<times> string option" where
  "requestLine (OpUpload ref r) = (MethodPut, Some ''text/plain'')"
| "requestLine (OpDownload ref) = (MethodGet, None)"
| "requestLine (OpDownloadRevision ref key) = (MethodGet, None)"
| "requestLine c = (MethodPost, Some ''application/json'')"

fun checkedMarshal :: "call \<Rightarrow> goval option" where
  "checkedMarshal (OpCreateDir ref) = Some (GoReference ref)"
| "checkedMarshal (OpDelete ref) = Some (GoReference ref)"
| "checkedMarshal (OpListFolder ref mdKeys) =
     Some (GoStruct [(''ref'', GoReference ref), (''mdKeys'', GoStrings mdKeys)])"
| "checkedMarshal c = None"

definition marshalFails :: "'f env \<Rightarrow> call \<Rightarrow> bool" where
  "marshalFails E c = (case checkedMarshal c of None \<Rightarrow> False | Some x \<Rightarrow> Marshal E x = None)"

section \<open>Lemmas about the helpers\<close>

lemmas method_defs =
  CreateStorageSpace_def GetHome_def CreateHome_def CreateDir_def Delete_def Move_def
  GetMD_def ListFolder_def InitiateUpload_def Upload_def Download_def DownloadRevision_def
  ListRevisions_def RestoreRevision_def ListRecycle_def RestoreRecycleItem_def
  PurgeRecycleItem_def EmptyRecycle_def GetPathByID_def AddGrant_def RemoveGrant_def
  DenyGrant_def UpdateGrant_def ListGrants_def GetQuota_def CreateReference_def Shutdown_def
  SetArbitraryMetadata_def UnsetArbitraryMetadata_def ListStorageSpaces_def

lemmas method_part0_defs =
  Move_part0_def GetMD_part0_def ListFolder_part0_def ListRevisions_part0_def
  RestoreRevision_part0_def ListRecycle_part0_def AddGrant_part0_def RemoveGrant_part0_def
  DenyGrant_part0_def UpdateGrant_part0_def ListGrants_part0_def GetQuota_part0_def
  CreateReference_part0_def SetArbitraryMetadata_part0_def UnsetArbitraryMetadata_part0_def
  ListStorageSpaces_part0_def

lemmas response_defs =
  GetMD_response_def ListFolder_response_def InitiateUpload_response_def
  List_response_def GetQuota_response_def ListStorageSpaces_response_def
  GetMD_part0_response_def ListFolder_part0_response_def List_part0_response_def
  GetQuota_part0_response_def

lemma isError_mapReturn [simp]: "isError (mapReturn g x) = isError x"
  by (cases x) simp_all

lemma mapReturn_Panic [simp]: "(mapReturn g x = Panic) = (x = Panic)"
  by (cases x) simp_all

lemma mapReturn_Error [simp]: "(mapReturn g x = Error e) = (x = Error e)"
  by (cases x) simp_all

lemma orUnmarshalError_not_NotFound [simp]: "orUnmarshalError x \<noteq> Error NotFound"
  by (cases x) simp_all

lemma orPanic_not_Error [simp]: "orPanic x \<noteq> Error e"
  by (cases x) simp_all

lemma unmarshalObject_Nil: "unmarshalObject E [] = None"
  by (simp add: unmarshalObject_def Unmarshal_def)

lemma unmarshal_fail:
  "Unmarshal E body = None \<Longrightarrow>
     unmarshalStruct E dec body = None \<and> unmarshalSlice E dec' body = None
     \<and> unmarshalArray E body = None \<and> unmarshalObject E body = None"
  by (simp add: unmarshalStruct_def unmarshalSlice_def unmarshalArray_def unmarshalObject_def)

text \<open>The loop \<^verbatim>\<open>for i := 0; i < len(xs); i++ { out[i] = ... xs[i] ... }\<close> as \<open>those\<close> over
  \<open>map\<close>: the result has the length of the input and its \<open>i\<close>-th element comes from the
  \<open>i\<close>-th input.\<close>

lemma those_map_nth:
  "those (map f xs) = Some ys \<Longrightarrow>
     length ys = length xs \<and> (\<forall>i<length xs. f (xs ! i) = Some (ys ! i))"
proof (induction xs arbitrary: ys)
  case Nil
  then show ?case by simp
next
  case (Cons x xs)
  then obtain y zs where y: "f x = Some y" and zs: "those (map f xs) = Some zs"
    and ys: "ys = y # zs"
    by (auto split: option.splits)
  from Cons.IH [OF zs] have "length zs = length xs"
    and nth: "\<forall>i<length xs. f (xs ! i) = Some (zs ! i)" by simp_all
  then show ?case using y ys by (auto simp: nth_Cons split: nat.split)
qed

text \<open>\<^verbatim>\<open>SetHTTPClient\<close>, which is not part of storage.FS, is the one method that
  writes a field of the driver.\<close>

lemma SetHTTPClient_sets:
  "client (nc (SetHTTPClient c s)) = c \<and> endPoint (nc (SetHTTPClient c s)) = endPoint (nc s)
   \<and> wire (SetHTTPClient c s) = wire s"
  by (simp add: SetHTTPClient_def)

subsection \<open>The helper \<^verbatim>\<open>do\<close>\<close>

text \<open>\<^verbatim>\<open>do\<close> without a user, and \<^verbatim>\<open>do\<close> with one: the whole function in one equation.\<close>

lemma do_None: "do E None a s = (Inl UserRequired, s)"
  by (simp add: do_def getUser_def)

lemma do_Some:
  "do E (Some u) a s =
     (let req = \<lparr>reqMethod = MethodPost,
                  reqURL = endPoint (nc s) @ ''~'' @ Username u @ ''/api/'' @ verb a,
                  reqContentType = Some ''application/json'',
                  reqBody = argS a\<rparr>
      in if urlParse E (reqURL req)
         then ((case client (nc s) req of
                  None \<Rightarrow> Inl TransportError
                | Some resp \<Rightarrow>
                    (case Body resp of
                       None \<Rightarrow> Inl ReadError
                     | Some body \<Rightarrow> Inr (StatusCode resp, body))),
               s\<lparr>wire := wire s @ [req]\<rparr>)
         else (Inl NewRequestError, s))"
  by (simp add: do_def getUser_def NewRequest_def clientDo_def Let_def split: option.split)

lemma do_Some_cases:
  "(\<exists>req. snd (do E (Some u) a s) = s\<lparr>wire := wire s @ [req]\<rparr>)
   \<or> do E (Some u) a s = (Inl NewRequestError, s)"
  unfolding do_Some Let_def
  by (cases "urlParse E (endPoint (nc s) @ ''~'' @ Username u @ ''/api/'' @ verb a)") auto

text \<open>When \<^verbatim>\<open>do\<close> returns a status and a body: a user is in the context, the URL was
  accepted, the round trip gave a response with that status, and its body was read.\<close>

lemma do_returns_iff:
  "fst (do E ctx a s) = Inr (status, body) \<longleftrightarrow>
     (\<exists>u resp. ctx = Some u
        \<and> urlParse E (endPoint (nc s) @ ''~'' @ Username u @ ''/api/'' @ verb a)
        \<and> client (nc s) \<lparr>reqMethod = MethodPost,
                           reqURL = endPoint (nc s) @ ''~'' @ Username u @ ''/api/'' @ verb a,
                           reqContentType = Some ''application/json'',
                           reqBody = argS a\<rparr> = Some resp
        \<and> StatusCode resp = status \<and> Body resp = Some body)"
  by (cases ctx) (auto simp: do_None do_Some Let_def split: option.splits)

lemma do_not_NotFound: "fst (do E ctx a s) \<noteq> Inl NotFound"
  by (cases ctx) (simp_all add: do_None do_Some Let_def split: option.split)

lemma do_transport_error:
  "(\<And>req. client (nc s) req = None) \<Longrightarrow> isl (fst (do E ctx a s))"
  by (cases ctx) (simp_all add: do_None do_Some Let_def)

lemma do_reqLine:
  "map reqLine (wire (snd (do E ctx a s))) =
     map reqLine (wire s) @
     (case ctx of
        None \<Rightarrow> []
      | Some u \<Rightarrow>
          (if urlParse E (endPoint (nc s) @ ''~'' @ Username u @ ''/api/'' @ verb a)
           then [(MethodPost, endPoint (nc s) @ ''~'' @ Username u @ ''/api/'' @ verb a,
                  Some ''application/json'')]
           else []))"
  by (cases ctx) (simp_all add: do_None do_Some Let_def reqLine_def)

subsection \<open>Every helper extends the state by at most one request to the end point\<close>

lemma extends_refl: "extends s s"
  unfolding extends_def by (rule exI [of _ "[]"]) simp

lemma extends_one:
  "prefix (endPoint (nc s)) (reqURL r) \<Longrightarrow> extends s (s\<lparr>wire := wire s @ [r]\<rparr>)"
  unfolding extends_def by (rule exI [of _ "[r]"]) simp

lemma do_extends: "extends s (snd (do E ctx a s))"
  by (auto simp: do_def getUser_def NewRequest_def clientDo_def Let_def extends_refl
           intro!: extends_one split: option.splits)

lemma doUpload_extends: "extends s (snd (doUpload E ctx p r s))"
  by (auto simp: doUpload_def getUser_def NewRequest_def clientDo_def Let_def extends_refl
           intro!: extends_one split: option.splits)

lemma doDownload_extends: "extends s (snd (doDownload E ctx p s))"
  by (auto simp: doDownload_def getUser_def NewRequest_def clientDo_def Let_def extends_refl
           intro!: extends_one split: option.splits)

lemma doDownloadRevision_extends: "extends s (snd (doDownloadRevision E ctx p k s))"
  by (auto simp: doDownloadRevision_def getUser_def NewRequest_def clientDo_def Let_def
                 extends_refl
           intro!: extends_one split: option.splits)

lemmas helper_extends =
  extends_refl do_extends doUpload_extends doDownload_extends doDownloadRevision_extends

lemma call_nextcloud_go_extends: "extends s (snd (call_nextcloud_go E ctx c s))"
  by (cases c) (simp_all add: returning_def method_defs Let_def helper_extends split: option.split)

lemma call_part_000_extends: "extends s (snd (call_part_000 E ctx c s))"
  by (cases c)
     (simp_all add: returning_def method_defs method_part0_defs Let_def helper_extends
               split: option.split)

lemma callFS_extends: "extends s (snd (callFS v E ctx c s))"
  by (cases v) (simp_all add: callFS_def call_nextcloud_go_extends call_part_000_extends)

subsection \<open>With a user: one request, unless building it fails\<close>

lemma ex_body:
  "\<exists>body. s\<lparr>wire := wire s @ [\<lparr>reqMethod = m, reqURL = U, reqContentType = ct, reqBody = B\<rparr>]\<rparr>
         = s\<lparr>wire := wire s @ [\<lparr>reqMethod = m, reqURL = U, reqContentType = ct,
                                 reqBody = body\<rparr>]\<rparr>"
  by (rule exI [of _ B]) simp

lemma call_marshal_failed:
  "marshalFails E c \<Longrightarrow> callFS v E ctx c s = (Error MarshalError, s)"
  by (cases v; cases c)
     (auto simp: callFS_def returning_def method_defs method_part0_defs marshalFails_def
        split: option.splits)

lemma call_rejected:
  "c \<noteq> OpCreateStorageSpace \<Longrightarrow> \<not> marshalFails E c \<Longrightarrow>
   \<not> urlParse E (endPoint (nc s) @ ''~'' @ Username u @ ''/api/'' @ apiPath E c) \<Longrightarrow>
   callFS v E (Some u) c s =
     (if usesDo c
      then (if v = Part_000 \<and> c = OpGetQuota then Error UnmarshalError
            else Error NewRequestError)
      else Panic, s)"
  by (cases v; cases c)
     (auto simp: callFS_def returning_def method_defs method_part0_defs Let_def marshalFails_def
        do_Some doUpload_def doDownload_def doDownloadRevision_def getUser_def
        NewRequest_def response_defs unmarshalObject_Nil split: option.splits)

lemma call_sent:
  "c \<noteq> OpCreateStorageSpace \<Longrightarrow> \<not> marshalFails E c \<Longrightarrow>
   urlParse E (endPoint (nc s) @ ''~'' @ Username u @ ''/api/'' @ apiPath E c) \<Longrightarrow>
   \<exists>body. snd (callFS v E (Some u) c s) =
      s\<lparr>wire := wire s @
          [\<lparr>reqMethod = fst (requestLine c),
            reqURL = endPoint (nc s) @ ''~'' @ Username u @ ''/api/'' @ apiPath E c,
            reqContentType = snd (requestLine c),
            reqBody = body\<rparr>]\<rparr>"
  by (cases v; cases c)
     (auto simp: callFS_def returning_def method_defs method_part0_defs Let_def marshalFails_def
        do_Some doUpload_def doDownload_def doDownloadRevision_def getUser_def
        NewRequest_def clientDo_def ex_body split: option.split)

subsection \<open>What the methods over \<^verbatim>\<open>do\<close> make of an error\<close>

lemma handlers_keep_error:
  "isl r \<Longrightarrow>
     isError (errOnly r) \<and> isError (bodyString r) \<and> isError (noSpaces r)
     \<and> isError (GetMD_response E r) \<and> isError (ListFolder_response E r)
     \<and> isError (InitiateUpload_response E r) \<and> isError (List_response E dec r)
     \<and> isError (GetQuota_response E r) \<and> isError (ListStorageSpaces_response E r)
     \<and> isError (GetMD_part0_response E ref r) \<and> isError (ListFolder_part0_response E r)
     \<and> isError (List_part0_response E build r) \<and> isError (GetQuota_part0_response E r)"
  by (cases r) (simp_all add: response_defs unmarshalObject_Nil)

text \<open>A failed round trip comes back as an error from every method over \<^verbatim>\<open>do\<close>, in
  both revisions.\<close>

lemma transport_error_returned:
  assumes "usesDo c" and "\<And>req. client (nc s) req = None"
  shows "isError (fst (callFS v E ctx c s))"
proof -
  have d: "isl (fst (do E ctx a s))" for a
    using assms(2) by (rule do_transport_error)
  show ?thesis
    using assms(1)
    by (cases v; cases c)
       (simp_all add: callFS_def returning_def method_defs method_part0_defs Let_def
          handlers_keep_error [OF d] split: option.split)
qed

text \<open>A body that \<^verbatim>\<open>json.Unmarshal\<close> rejects comes back as its error from every method
  that unmarshals.\<close>

lemma handlers_unmarshal_error:
  "Unmarshal E body = None \<Longrightarrow> status \<noteq> 404 \<Longrightarrow>
     GetMD_response E (Inr (status, body)) = Error UnmarshalError
     \<and> ListFolder_response E (Inr (status, body)) = Error UnmarshalError
     \<and> InitiateUpload_response E (Inr (status, body)) = Error UnmarshalError
     \<and> List_response E dec (Inr (status, body)) = Error UnmarshalError
     \<and> GetQuota_response E (Inr (status, body)) = Error UnmarshalError
     \<and> ListStorageSpaces_response E (Inr (status, body)) = Error UnmarshalError
     \<and> GetMD_part0_response E ref (Inr (status, body)) = Error UnmarshalError
     \<and> ListFolder_part0_response E (Inr (status, body)) = Error UnmarshalError
     \<and> List_part0_response E build (Inr (status, body)) = Error UnmarshalError
     \<and> GetQuota_part0_response E (Inr (status, body)) = Error UnmarshalError"
  by (simp add: response_defs unmarshal_fail)

text \<open>The unchecked type assertions are a second way to panic: a body that is valid
  JSON without the expected members. The download helpers panic like \<^verbatim>\<open>doUpload\<close>.\<close>

lemma GetQuota_panics_on_missing_field:
  "fst (callFS Nextcloud_go exampleEnv (Some alice) OpGetQuota (driverWith (answering 200 ''{}'')))
     = Panic"
  by (simp add: callFS_def returning_def GetQuota_def GetQuota_response_def unmarshalObject_def
        Unmarshal_def lookupKey_def do_Some Let_def exampleEnv_def exampleParse_def
        alice_def driverWith_def answering_def noCTLByte_def)

lemma Download_panics_on_transport_error:
  "fst (callFS v exampleEnv (Some alice) (OpDownload refA) (driverWith unreachable)) = Panic"
  by (cases v)
     (simp_all add: callFS_def returning_def Download_def doDownload_def getUser_def
        NewRequest_def clientDo_def exampleEnv_def alice_def refA_def driverWith_def
        noCTLByte_def unreachable_def)

subsection \<open>The status 404\<close>

lemma GetMD_response_NotFound:
  "r \<noteq> Inl NotFound \<Longrightarrow>
   (GetMD_response E r = Error NotFound) = (\<exists>body. r = Inr (404, body))"
  by (cases r) (auto simp: GetMD_response_def split: if_splits)

lemma GetMD_part0_response_NotFound:
  "r \<noteq> Inl NotFound \<Longrightarrow>
   (GetMD_part0_response E ref r = Error NotFound) = (\<exists>body. r = Inr (404, body))"
  by (cases r) (auto simp: GetMD_part0_response_def split: if_splits option.splits)

lemma ListFolder_response_NotFound:
  "r \<noteq> Inl NotFound \<Longrightarrow>
   (ListFolder_response E r = Error NotFound) = (\<exists>body. r = Inr (404, body))"
  by (cases r) (auto simp: ListFolder_response_def split: if_splits)

lemma ListFolder_part0_response_NotFound:
  "r \<noteq> Inl NotFound \<Longrightarrow>
   (ListFolder_part0_response E r = Error NotFound) = (\<exists>body. r = Inr (404, body))"
  by (cases r) (auto simp: ListFolder_part0_response_def split: if_splits option.splits)

lemmas NotFound_iffs =
  GetMD_response_NotFound [OF do_not_NotFound]
  GetMD_part0_response_NotFound [OF do_not_NotFound]
  ListFolder_response_NotFound [OF do_not_NotFound]
  ListFolder_part0_response_NotFound [OF do_not_NotFound]

subsection \<open>The list methods of nextcloud.go, element by element\<close>

lemma List_response_elementwise:
  assumes "Unmarshal E body = Some (JArr xs)"
    and "List_response E dec (Inr (status, body)) = Return ys"
  shows "length ys = length xs \<and> (\<forall>i<length xs. dec (xs ! i) = Some (ys ! i))"
proof -
  have "those (map dec xs) = Some ys"
    using assms by (cases "those (map dec xs)") (simp_all add: List_response_def unmarshalSlice_def)
  then show ?thesis by (rule those_map_nth)
qed

lemma ListFolder_response_elementwise:
  assumes "Unmarshal E body = Some (JArr xs)"
    and "ListFolder_response E (Inr (status, body)) = Return ys"
  shows "length ys = length xs
     \<and> (\<forall>i<length xs. decodeResourceInfo E (xs ! i) = Some (ys ! i))"
proof -
  have "those (map (decodeResourceInfo E) xs) = Some ys"
    using assms
    by (cases "those (map (decodeResourceInfo E) xs)")
       (simp_all add: ListFolder_response_def unmarshalSlice_def split: if_splits)
  then show ?thesis by (rule those_map_nth)
qed

text \<open>\<^verbatim>\<open>ListFolder\<close> of \<^verbatim>\<open>part_000\<close>: whatever the element, these fields of the result
  are fixed.\<close>

lemma ListFolder_part0_info_fixed:
  "ListFolder_part0_info E x = Some info \<Longrightarrow>
     ri_Path info = ''/subdir'' \<and> ri_Size info = 0 \<and> ri_Type info = RESOURCE_TYPE_CONTAINER
     \<and> ri_Mtime info = Some \<lparr>ts_Seconds = 1234567890\<rparr>
     \<and> ri_Owner info = Some \<lparr>uid_Idp = [],
                               uid_OpaqueId = ''f7fbf8c8-139b-4376-b307-cf0a8c2d0d9c'',
                               uid_Type = USER_TYPE_INVALID\<rparr>"
  by (auto simp: ListFolder_part0_info_def split: Option.bind_splits)

text \<open>\<^verbatim>\<open>GetMD\<close> of \<^verbatim>\<open>part_000\<close>: where the fields of a result it builds come from.\<close>

lemma GetMD_part0_info_fields:
  "GetMD_part0_info E ref respMap = Some info \<Longrightarrow>
     asString (lookupKey respMap ''etag'') = Some (ri_Etag info)
     \<and> asString (lookupKey respMap ''mimetype'') = Some (ri_MimeType info)
     \<and> (\<exists>path. asString (lookupKey respMap ''path'') = Some path
           \<and> ri_Id info = Some \<lparr>rid_StorageId = [],
                                  rid_OpaqueId = ''fileid-'' @ QueryEscape E path\<rparr>)
     \<and> (\<exists>sizeF. asFloat64 (lookupKey respMap ''size'') = Some sizeF
           \<and> ri_Size info = toInt E sizeF)
     \<and> ri_Path info = ref_Path ref
     \<and> ri_Type info = RESOURCE_TYPE_FILE
     \<and> ri_Mtime info = Some \<lparr>ts_Seconds = 1234567890\<rparr>"
  by (auto simp: GetMD_part0_info_def split: Option.bind_splits)

subsection \<open>The two revisions side by side\<close>

lemma call_sameText:
  "sameText c \<Longrightarrow> call_nextcloud_go E ctx c s = call_part_000 E ctx c s"
  by (cases c) simp_all

lemma call_sameRequest:
  "sameRequest c \<Longrightarrow> snd (call_nextcloud_go E ctx c s) = snd (call_part_000 E ctx c s)"
  by (cases c)
     (simp_all add: returning_def method_defs method_part0_defs Let_def split: option.split)

lemma call_reqLine:
  "map reqLine (wire (snd (call_nextcloud_go E ctx c s)))
     = map reqLine (wire (snd (call_part_000 E ctx c s)))"
  by (cases c)
     (simp_all add: returning_def method_defs method_part0_defs Let_def do_reqLine
        split: option.split)

text \<open>The body \<^verbatim>\<open>do\<close> puts on the wire, and the members \<^verbatim>\<open>GetQuota\<close> reads in each
  revision.\<close>

lemma do_reqBody:
  "urlParse E (endPoint (nc s) @ ''~'' @ Username u @ ''/api/'' @ verb a) \<Longrightarrow>
     map reqBody (wire (snd (do E (Some u) a s))) = map reqBody (wire s) @ [argS a]"
  by (simp add: do_Some Let_def)

lemma GetQuota_response_fields:
  "unmarshalObject E body = Some respMap \<Longrightarrow>
     GetQuota_response E (Inr (status, body)) =
       (case (asFloat64 (lookupKey respMap ''maxBytes''),
              asFloat64 (lookupKey respMap ''maxFiles'')) of
          (Some maxBytes, Some maxFiles) \<Rightarrow> Return (toUint64 E maxBytes, toUint64 E maxFiles)
        | _ \<Rightarrow> Panic)"
  by (simp add: GetQuota_response_def split: option.split)

lemma GetQuota_part0_response_fields:
  "unmarshalObject E body = Some respMap \<Longrightarrow>
     GetQuota_part0_response E (Inr (status, body)) =
       (case (asFloat64 (lookupKey respMap ''total''),
              asFloat64 (lookupKey respMap ''used'')) of
          (Some totalF, Some usedF) \<Rightarrow> Return (toUint64 E totalF, toUint64 E usedF)
        | _ \<Rightarrow> Panic)"
  by (simp add: GetQuota_part0_response_def split: option.split)

section \<open>The claims\<close>

subsection \<open>C1: the request of \<^verbatim>\<open>do\<close>\<close>

text \<open>
  Claim C1 says that \<^verbatim>\<open>do\<close>, with a user in the context, always issues exactly one
  POST. The source returns early when \<^verbatim>\<open>http.NewRequest\<close> fails (lines 202 to 205),
  before \<^verbatim>\<open>nc.client.Do\<close>. With the user \<open>mallory\<close>, whose name holds a control byte,
  no request is issued and the error of \<^verbatim>\<open>http.NewRequest\<close> is returned.
\<close>

theorem do_no_request_counterexample:
  "wire (snd (do exampleEnv (Some mallory) \<lparr>verb = ''GetHome'', argS = ''''\<rparr>
                (driverWith (answering 200 ''/home'')))) = []
   \<and> fst (do exampleEnv (Some mallory) \<lparr>verb = ''GetHome'', argS = ''''\<rparr>
                (driverWith (answering 200 ''/home''))) = Inl NewRequestError"
  by (simp add: do_def getUser_def NewRequest_def exampleEnv_def mallory_def driverWith_def
        noCTLByte_def)

text \<open>
  Claim C1, amended: for every action run by \<^verbatim>\<open>do\<close> with a user in the context, if
  \<^verbatim>\<open>http.NewRequest\<close> accepts the URL then exactly one request is issued; it is a POST,
  its URL is the end point followed by \<open>~\<close>, the user name, \<open>/api/\<close> and the verb, its
  Content-Type is application/json and its body is the argument string of the action.
  If \<^verbatim>\<open>http.NewRequest\<close> rejects the URL, no request is issued and \<^verbatim>\<open>do\<close> returns that
  error. Nothing else of the state changes.
\<close>

theorem do_posts_once:
  "snd (do E (Some u) a s) =
     (if urlParse E (endPoint (nc s) @ ''~'' @ Username u @ ''/api/'' @ verb a)
      then s\<lparr>wire := wire s @
             [\<lparr>reqMethod = MethodPost,
               reqURL = endPoint (nc s) @ ''~'' @ Username u @ ''/api/'' @ verb a,
               reqContentType = Some ''application/json'',
               reqBody = argS a\<rparr>]\<rparr>
      else s)
   \<and> (\<not> urlParse E (endPoint (nc s) @ ''~'' @ Username u @ ''/api/'' @ verb a)
        \<longrightarrow> fst (do E (Some u) a s) = Inl NewRequestError)"
  by (simp add: do_Some Let_def)

text \<open>The amended claim at the user \<open>alice\<close> and the action GetHome.\<close>

theorem do_posts_once_witness:
  "snd (do exampleEnv (Some alice) \<lparr>verb = ''GetHome'', argS = ''''\<rparr>
          (driverWith (answering 200 ''/home'')))
     = (driverWith (answering 200 ''/home''))
        \<lparr>wire := [\<lparr>reqMethod = MethodPost,
                   reqURL = ''http://nc/apps/sciencemesh/~alice/api/GetHome'',
                   reqContentType = Some ''application/json'',
                   reqBody = ''''\<rparr>]\<rparr>"
  using do_posts_once [of exampleEnv alice "\<lparr>verb = ''GetHome'', argS = ''''\<rparr>"
                          "driverWith (answering 200 ''/home'')"]
  by (simp add: exampleEnv_def alice_def driverWith_def noCTLByte_def)

subsection \<open>C2: transport and deserialization errors are returned\<close>

text \<open>
  Claim C2 says that every operation returns a non-nil error, and does not crash,
  when the HTTP round trip fails. The methods over \<^verbatim>\<open>do\<close> do so
  (\<open>transport_error_returned\<close>, \<open>handlers_unmarshal_error\<close>). \<^verbatim>\<open>Upload\<close> does not:
  \<^verbatim>\<open>doUpload\<close> calls \<^verbatim>\<open>panic(err)\<close> on the error of \<^verbatim>\<open>nc.client.Do\<close> (lines 137 to 140),
  where \<^verbatim>\<open>do\<close> returns it (lines 208 to 211). The theorem runs \<^verbatim>\<open>Upload\<close> of either
  revision against a client whose round trip fails: the request is sent and the
  call panics.
\<close>

theorem Upload_panics_on_transport_error:
  "callFS v exampleEnv (Some alice) (OpUpload refA ''hello'') (driverWith unreachable)
     = (Panic, (driverWith unreachable)
          \<lparr>wire := [\<lparr>reqMethod = MethodPut,
                     reqURL = ''http://nc/apps/sciencemesh/~alice/api/Upload//a'',
                     reqContentType = Some ''text/plain'',
                     reqBody = ''hello''\<rparr>]\<rparr>)"
  by (cases v)
     (simp_all add: callFS_def returning_def Upload_def doUpload_def getUser_def NewRequest_def
        clientDo_def exampleEnv_def alice_def refA_def driverWith_def noCTLByte_def unreachable_def)

subsection \<open>C3: every operation becomes an HTTP request\<close>

text \<open>
  Claim C3 says that every operation of the interface, called with a user in the
  context, causes an HTTP request. \<^verbatim>\<open>CreateStorageSpace\<close> (lines 79 to 82) returns the
  error \<^verbatim>\<open>unimplemented: CreateStorageSpace\<close> and issues none.
\<close>

theorem CreateStorageSpace_counterexample:
  "wire (snd (callFS Nextcloud_go exampleEnv (Some alice) OpCreateStorageSpace
                (driverWith (answering 200 [])))) = []"
  by (simp add: callFS_def CreateStorageSpace_def returning_def driverWith_def)

text \<open>
  Claim C3, amended: every operation other than \<^verbatim>\<open>CreateStorageSpace\<close>, called with a
  user in the context, issues exactly one HTTP request, with the method and
  Content-Type of its helper and the URL made of the end point, \<open>~\<close>, the user name,
  \<open>/api/\<close> and the verb (or the upload or download path), whenever the request can be
  built: the \<^verbatim>\<open>json.Marshal\<close> whose error the method checks (\<^verbatim>\<open>CreateDir\<close>, \<^verbatim>\<open>Delete\<close>,
  \<^verbatim>\<open>ListFolder\<close>) succeeds and \<^verbatim>\<open>http.NewRequest\<close> accepts the URL. If that
  \<^verbatim>\<open>json.Marshal\<close> fails, the call returns its error and sends nothing. If
  \<^verbatim>\<open>http.NewRequest\<close> rejects the URL, nothing is sent and the call returns that error
  (\<^verbatim>\<open>GetQuota\<close> of \<^verbatim>\<open>part_000\<close>: the error of \<^verbatim>\<open>json.Unmarshal\<close> on the nil body) or,
  in \<^verbatim>\<open>Upload\<close>, \<^verbatim>\<open>Download\<close> and \<^verbatim>\<open>DownloadRevision\<close>, panics. \<^verbatim>\<open>CreateStorageSpace\<close>
  issues no request and returns the error \<^verbatim>\<open>unimplemented: CreateStorageSpace\<close>. This
  holds in both revisions.
\<close>

theorem one_request_or_fails_before_sending:
  "(c \<noteq> OpCreateStorageSpace \<longrightarrow>
      (marshalFails E c \<longrightarrow> callFS v E (Some u) c s = (Error MarshalError, s))
      \<and> (\<not> marshalFails E c
           \<and> \<not> urlParse E (endPoint (nc s) @ ''~'' @ Username u @ ''/api/'' @ apiPath E c)
          \<longrightarrow> callFS v E (Some u) c s =
                (if usesDo c
                 then (if v = Part_000 \<and> c = OpGetQuota then Error UnmarshalError
                       else Error NewRequestError)
                 else Panic, s))
      \<and> (\<not> marshalFails E c
           \<and> urlParse E (endPoint (nc s) @ ''~'' @ Username u @ ''/api/'' @ apiPath E c)
          \<longrightarrow> (\<exists>body. snd (callFS v E (Some u) c s) =
                  s\<lparr>wire := wire s @
                      [\<lparr>reqMethod = fst (requestLine c),
                        reqURL = endPoint (nc s) @ ''~'' @ Username u @ ''/api/''
                                   @ apiPath E c,
                        reqContentType = snd (requestLine c),
                        reqBody = body\<rparr>]\<rparr>)))
   \<and> callFS v E ctx OpCreateStorageSpace s
       = (Error (Unimplemented ''unimplemented: CreateStorageSpace''), s)"
proof (intro conjI impI)
  assume "c \<noteq> OpCreateStorageSpace" and "marshalFails E c"
  then show "callFS v E (Some u) c s = (Error MarshalError, s)"
    by (simp add: call_marshal_failed)
next
  assume "c \<noteq> OpCreateStorageSpace"
    and "\<not> marshalFails E c
         \<and> \<not> urlParse E (endPoint (nc s) @ ''~'' @ Username u @ ''/api/'' @ apiPath E c)"
  then show "callFS v E (Some u) c s =
                (if usesDo c
                 then (if v = Part_000 \<and> c = OpGetQuota then Error UnmarshalError
                       else Error NewRequestError)
                 else Panic, s)"
    using call_rejected [of c E s u v] by blast
next
  assume "c \<noteq> OpCreateStorageSpace"
    and "\<not> marshalFails E c
         \<and> urlParse E (endPoint (nc s) @ ''~'' @ Username u @ ''/api/'' @ apiPath E c)"
  then show "\<exists>body. snd (callFS v E (Some u) c s) =
                  s\<lparr>wire := wire s @
                      [\<lparr>reqMethod = fst (requestLine c),
                        reqURL = endPoint (nc s) @ ''~'' @ Username u @ ''/api/''
                                   @ apiPath E c,
                        reqContentType = snd (requestLine c),
                        reqBody = body\<rparr>]\<rparr>"
    using call_sent [of c E s u v] by blast
next
  show "callFS v E ctx OpCreateStorageSpace s
       = (Error (Unimplemented ''unimplemented: CreateStorageSpace''), s)"
    by (cases v) (simp_all add: callFS_def CreateStorageSpace_def returning_def)
qed

text \<open>The amended claim at \<^verbatim>\<open>Delete\<close> of \<^verbatim>\<open>/a\<close> for \<open>alice\<close> (the reference is marshalled,
  the URL is accepted, one POST goes out) and at \<^verbatim>\<open>GetHome\<close> for \<open>mallory\<close>, whose URL
  \<^verbatim>\<open>http.NewRequest\<close> rejects.\<close>

theorem one_request_witness:
  \<open>OpDelete refA \<noteq> OpCreateStorageSpace
   \<and> \<not> marshalFails exampleEnv (OpDelete refA)
   \<and> urlParse exampleEnv ''http://nc/apps/sciencemesh/~alice/api/Delete''
   \<and> snd (callFS Nextcloud_go exampleEnv (Some alice) (OpDelete refA)
            (driverWith (answering 200 [])))
     = (driverWith (answering 200 []))
         \<lparr>wire := [\<lparr>reqMethod = MethodPost,
                    reqURL = ''http://nc/apps/sciencemesh/~alice/api/Delete'',
                    reqContentType = Some ''application/json'',
                    reqBody = ''{"path":"/a"}''\<rparr>]\<rparr>
   \<and> callFS Part_000 exampleEnv (Some mallory) OpGetHome (driverWith (answering 200 ''/home''))
     = (Error NewRequestError, driverWith (answering 200 ''/home''))\<close>
  using one_request_or_fails_before_sending
          [of "OpDelete refA" exampleEnv Nextcloud_go alice "driverWith (answering 200 [])"]
        one_request_or_fails_before_sending
          [of OpGetHome exampleEnv Part_000 mallory "driverWith (answering 200 ''/home'')"]
  by (simp add: callFS_def returning_def Delete_def marshalFails_def do_Some Let_def
        exampleEnv_def exampleMarshal_def alice_def mallory_def refA_def driverWith_def
        noCTLByte_def)

subsection \<open>C4: the list methods return the decoded array\<close>

text \<open>
  Claim C4 says that a list method returns, for a JSON array, a list of the same
  length and order whose elements are the decoded array elements, with no field
  hardcoded. The list methods of nextcloud.go do (\<open>List_response_elementwise\<close>,
  \<open>ListFolder_response_elementwise\<close>). \<^verbatim>\<open>ListFolder\<close> of \<^verbatim>\<open>part_000\<close> does not: it
  copies the etag and the mime type, derives the id from the path, and writes fixed
  values into the other fields, among them \<^verbatim>\<open>Path: "/subdir", // FIXME: bodyArr[i]\<close>
  (lines 373 to 392; \<open>ListFolder_part0_info_fixed\<close>). The theorem runs it on a
  response with one entry for \<^verbatim>\<open>/a/welcome.txt\<close>: the entry returned has the path
  \<^verbatim>\<open>/subdir\<close>, the type container, the size 0 and a fixed owner and modification time.
\<close>

theorem ListFolder_part0_hardcodes_fields:
  \<open>fst (callFS Part_000 exampleEnv (Some alice) (OpListFolder refA [])
          (driverWith (answering 200
             ''[{"path":"/a/welcome.txt","etag":"e1","mimetype":"text/plain"}]'')))
     = Return (RetResourceInfos
         [\<lparr>ri_Opaque = Some Opaque_zero,
           ri_Type = RESOURCE_TYPE_CONTAINER,
           ri_Id = Some \<lparr>rid_StorageId = [], rid_OpaqueId = ''fileid-%2Fa%2Fwelcome.txt''\<rparr>,
           ri_Checksum = Some ResourceChecksum_zero,
           ri_Etag = ''e1'',
           ri_MimeType = ''text/plain'',
           ri_Mtime = Some \<lparr>ts_Seconds = 1234567890\<rparr>,
           ri_Path = ''/subdir'',
           ri_PermissionSet = Some ResourcePermissions_zero,
           ri_Size = 0,
           ri_Owner = Some \<lparr>uid_Idp = [],
                            uid_OpaqueId = ''f7fbf8c8-139b-4376-b307-cf0a8c2d0d9c'',
                            uid_Type = USER_TYPE_INVALID\<rparr>,
           ri_Target = [],
           ri_CanonicalMetadata = Some CanonicalMetadata_zero,
           ri_ArbitraryMetadata = None\<rparr>])\<close>
  by (simp add: callFS_def returning_def ListFolder_part0_def ListFolder_part0_response_def
        ListFolder_part0_info_def unmarshalArray_def unmarshalSlice_def Unmarshal_def
        lookupKey_def do_Some Let_def
        exampleEnv_def exampleMarshal_def exampleParse_def exampleQueryEscape_def
        alice_def driverWith_def answering_def noCTLByte_def refA_def)

subsection \<open>C5: the two revisions compared\<close>

text \<open>
  Claim C5 says that the two revisions send the same body and compute the same
  result for every operation, and names \<^verbatim>\<open>Move\<close> and \<^verbatim>\<open>GetQuota\<close>. They do not:
  \<^verbatim>\<open>Move\<close> sends the references under \<^verbatim>\<open>oldRef\<close> and \<^verbatim>\<open>newRef\<close> in nextcloud.go and
  under \<^verbatim>\<open>from\<close> and \<^verbatim>\<open>to\<close> in \<^verbatim>\<open>part_000\<close>; \<^verbatim>\<open>GetQuota\<close> reads \<^verbatim>\<open>maxBytes\<close> and
  \<^verbatim>\<open>maxFiles\<close> in nextcloud.go and \<^verbatim>\<open>total\<close> and \<^verbatim>\<open>used\<close> in \<^verbatim>\<open>part_000\<close>, so that on
  the same response one returns the quota and the other panics.
\<close>

theorem revisions_differ_counterexample:
  \<open>map reqBody (wire (snd (callFS Nextcloud_go exampleEnv (Some alice) (OpMove refA refB)
                             (driverWith (answering 200 [])))))
     = [''{"oldRef":{"path":"/a"},"newRef":{"path":"/b"}}'']
   \<and> map reqBody (wire (snd (callFS Part_000 exampleEnv (Some alice) (OpMove refA refB)
                               (driverWith (answering 200 [])))))
     = [''{"from":{"path":"/a"},"to":{"path":"/b"}}'']
   \<and> fst (callFS Nextcloud_go exampleEnv (Some alice) OpGetQuota
            (driverWith (answering 200 ''{"maxBytes":1000,"maxFiles":10}'')))
     = Return (RetQuota (1000, 10))
   \<and> fst (callFS Part_000 exampleEnv (Some alice) OpGetQuota
            (driverWith (answering 200 ''{"maxBytes":1000,"maxFiles":10}'')))
     = Panic\<close>
  by (simp add: callFS_def returning_def Move_def Move_part0_def GetQuota_def GetQuota_part0_def
        GetQuota_response_def GetQuota_part0_response_def unmarshalObject_def Unmarshal_def
        lookupKey_def marshalDropErr_def do_Some Let_def
        exampleEnv_def exampleMarshal_def exampleParse_def
        alice_def driverWith_def answering_def noCTLByte_def refA_def refB_def)

text \<open>
  Claim C5, amended: for every operation and the same inputs, the two revisions
  issue their request under the same conditions, with the same method, the same URL
  (hence the same verb) and the same Content-Type. For the operations whose text is
  the same in both (\<open>sameText\<close>: \<^verbatim>\<open>CreateStorageSpace\<close>, \<^verbatim>\<open>GetHome\<close>, \<^verbatim>\<open>CreateHome\<close>,
  \<^verbatim>\<open>CreateDir\<close>, \<^verbatim>\<open>Delete\<close>, \<^verbatim>\<open>InitiateUpload\<close>, \<^verbatim>\<open>Upload\<close>, \<^verbatim>\<open>Download\<close>,
  \<^verbatim>\<open>DownloadRevision\<close>, \<^verbatim>\<open>RestoreRecycleItem\<close>, \<^verbatim>\<open>PurgeRecycleItem\<close>, \<^verbatim>\<open>EmptyRecycle\<close>,
  \<^verbatim>\<open>GetPathByID\<close>, \<^verbatim>\<open>Shutdown\<close>) the body and the result are the same as well. For
  \<^verbatim>\<open>GetMD\<close>, \<^verbatim>\<open>ListFolder\<close>, \<^verbatim>\<open>ListRevisions\<close> and \<^verbatim>\<open>GetQuota\<close> the whole request, body
  included, is the same. \<^verbatim>\<open>Move\<close> sends the JSON of a struct with the members
  \<^verbatim>\<open>oldRef\<close> and \<^verbatim>\<open>newRef\<close> in nextcloud.go and of a map with the keys \<^verbatim>\<open>from\<close> and \<^verbatim>\<open>to\<close>
  in \<^verbatim>\<open>part_000\<close>. From a decoded response object, \<^verbatim>\<open>GetQuota\<close> returns the numbers at
  \<^verbatim>\<open>maxBytes\<close> and \<^verbatim>\<open>maxFiles\<close> in nextcloud.go and those at \<^verbatim>\<open>total\<close> and \<^verbatim>\<open>used\<close> in
  \<^verbatim>\<open>part_000\<close>, and panics when one of them is missing or not a number.
\<close>

theorem revisions_agree:
  "(sameText c \<longrightarrow> callFS Nextcloud_go E ctx c s = callFS Part_000 E ctx c s)
   \<and> (sameRequest c \<longrightarrow>
        snd (callFS Nextcloud_go E ctx c s) = snd (callFS Part_000 E ctx c s))
   \<and> map reqLine (wire (snd (callFS Nextcloud_go E ctx c s)))
        = map reqLine (wire (snd (callFS Part_000 E ctx c s)))
   \<and> (urlParse E (endPoint (nc s) @ ''~'' @ Username u @ ''/api/Move'') \<longrightarrow>
        map reqBody (wire (snd (callFS Nextcloud_go E (Some u) (OpMove oldRef newRef) s)))
          = map reqBody (wire s) @
            [marshalDropErr E
               (GoStruct [(''oldRef'', GoReference oldRef), (''newRef'', GoReference newRef)])]
        \<and> map reqBody (wire (snd (callFS Part_000 E (Some u) (OpMove oldRef newRef) s)))
          = map reqBody (wire s) @
            [marshalDropErr E
               (GoMap [(''from'', GoReference oldRef), (''to'', GoReference newRef)])])
   \<and> (fst (do E ctx \<lparr>verb = ''GetQuota'', argS = ''''\<rparr> s) = Inr (status, body)
        \<and> unmarshalObject E body = Some respMap \<longrightarrow>
        fst (callFS Nextcloud_go E ctx OpGetQuota s)
          = (case (asFloat64 (lookupKey respMap ''maxBytes''),
                   asFloat64 (lookupKey respMap ''maxFiles'')) of
               (Some maxBytes, Some maxFiles) \<Rightarrow>
                 Return (RetQuota (toUint64 E maxBytes, toUint64 E maxFiles))
             | _ \<Rightarrow> Panic)
        \<and> fst (callFS Part_000 E ctx OpGetQuota s)
          = (case (asFloat64 (lookupKey respMap ''total''),
                   asFloat64 (lookupKey respMap ''used'')) of
               (Some totalF, Some usedF) \<Rightarrow>
                 Return (RetQuota (toUint64 E totalF, toUint64 E usedF))
             | _ \<Rightarrow> Panic))"
proof (intro conjI impI)
  show "sameText c \<Longrightarrow> callFS Nextcloud_go E ctx c s = callFS Part_000 E ctx c s"
    by (simp add: callFS_def call_sameText)
  show "sameRequest c \<Longrightarrow> snd (callFS Nextcloud_go E ctx c s) = snd (callFS Part_000 E ctx c s)"
    by (simp add: callFS_def call_sameRequest)
  show "map reqLine (wire (snd (callFS Nextcloud_go E ctx c s)))
        = map reqLine (wire (snd (callFS Part_000 E ctx c s)))"
    by (simp add: callFS_def call_reqLine)
next
  assume ok: "urlParse E (endPoint (nc s) @ ''~'' @ Username u @ ''/api/Move'')"
  show "map reqBody (wire (snd (callFS Nextcloud_go E (Some u) (OpMove oldRef newRef) s)))
          = map reqBody (wire s) @
            [marshalDropErr E
               (GoStruct [(''oldRef'', GoReference oldRef), (''newRef'', GoReference newRef)])]"
    using ok by (simp add: callFS_def returning_def Move_def Let_def do_reqBody)
  show "map reqBody (wire (snd (callFS Part_000 E (Some u) (OpMove oldRef newRef) s)))
          = map reqBody (wire s) @
            [marshalDropErr E
               (GoMap [(''from'', GoReference oldRef), (''to'', GoReference newRef)])]"
    using ok by (simp add: callFS_def returning_def Move_part0_def Let_def do_reqBody)
next
  assume r: "fst (do E ctx \<lparr>verb = ''GetQuota'', argS = ''''\<rparr> s) = Inr (status, body)
        \<and> unmarshalObject E body = Some respMap"
  show "fst (callFS Nextcloud_go E ctx OpGetQuota s)
          = (case (asFloat64 (lookupKey respMap ''maxBytes''),
                   asFloat64 (lookupKey respMap ''maxFiles'')) of
               (Some maxBytes, Some maxFiles) \<Rightarrow>
                 Return (RetQuota (toUint64 E maxBytes, toUint64 E maxFiles))
             | _ \<Rightarrow> Panic)"
    using r
    by (simp add: callFS_def returning_def GetQuota_def GetQuota_response_fields
          split: option.split)
  show "fst (callFS Part_000 E ctx OpGetQuota s)
          = (case (asFloat64 (lookupKey respMap ''total''),
                   asFloat64 (lookupKey respMap ''used'')) of
               (Some totalF, Some usedF) \<Rightarrow>
                 Return (RetQuota (toUint64 E totalF, toUint64 E usedF))
             | _ \<Rightarrow> Panic)"
    using r
    by (simp add: callFS_def returning_def GetQuota_part0_def GetQuota_part0_response_fields
          split: option.split)
qed

text \<open>The amended claim at GetHome (same text), at GetQuota (same request; the
  response has \<^verbatim>\<open>total\<close> and \<^verbatim>\<open>used\<close>, which only \<^verbatim>\<open>part_000\<close> reads) and at Move.\<close>

theorem revisions_agree_witness:
  \<open>sameText OpGetHome
   \<and> callFS Nextcloud_go exampleEnv (Some alice) OpGetHome (driverWith (answering 200 ''/home''))
     = callFS Part_000 exampleEnv (Some alice) OpGetHome (driverWith (answering 200 ''/home''))
   \<and> sameRequest OpGetQuota
   \<and> snd (callFS Nextcloud_go exampleEnv (Some alice) OpGetQuota
            (driverWith (answering 200 ''{"total":1000,"used":10}'')))
     = snd (callFS Part_000 exampleEnv (Some alice) OpGetQuota
            (driverWith (answering 200 ''{"total":1000,"used":10}'')))
   \<and> fst (callFS Nextcloud_go exampleEnv (Some alice) OpGetQuota
            (driverWith (answering 200 ''{"total":1000,"used":10}''))) = Panic
   \<and> fst (callFS Part_000 exampleEnv (Some alice) OpGetQuota
            (driverWith (answering 200 ''{"total":1000,"used":10}'')))
     = Return (RetQuota (1000, 10))
   \<and> map reqBody (wire (snd (callFS Part_000 exampleEnv (Some alice) (OpMove refA refB)
                               (driverWith (answering 200 [])))))
     = [''{"from":{"path":"/a"},"to":{"path":"/b"}}'']\<close>
  using revisions_agree [of OpGetHome exampleEnv "Some alice" "driverWith (answering 200 ''/home'')"]
        revisions_agree [of OpGetQuota exampleEnv "Some alice"
          \<open>driverWith (answering 200 ''{"total":1000,"used":10}'')\<close> alice refA refB
          200 \<open>''{"total":1000,"used":10}''\<close> \<open>[(''total'', JNum 1000), (''used'', JNum 10)]\<close>]
        revisions_agree [of OpGetHome exampleEnv "Some alice" "driverWith (answering 200 [])"
          alice refA refB]
  by (simp add: do_Some Let_def unmarshalObject_def Unmarshal_def lookupKey_def
        marshalDropErr_def exampleEnv_def exampleMarshal_def exampleParse_def alice_def
        driverWith_def answering_def noCTLByte_def)

subsection \<open>C6: no retry\<close>

text \<open>
  Claim C6: a single call of any operation, in either revision, hands at most one
  request to \<^verbatim>\<open>nc.client.Do\<close>, whether the request succeeds or fails (what the
  \<^verbatim>\<open>http.Client\<close> does below \<^verbatim>\<open>Do\<close>, such as following redirects, is not part of the
  driver).
\<close>

theorem no_retry:
  "\<exists>rs. wire (snd (callFS v E ctx c s)) = wire s @ rs \<and> length rs \<le> 1"
  using callFS_extends [of s v E ctx c] unfolding extends_def by auto

subsection \<open>C7: the driver keeps no state\<close>

text \<open>
  Claim C7: after any operation of the interface, in either revision, the fields
  \<^verbatim>\<open>endPoint\<close> and \<^verbatim>\<open>client\<close> of the driver are what they were before the call.
\<close>

theorem driver_fields_unchanged:
  "endPoint (nc (snd (callFS v E ctx c s))) = endPoint (nc s)
   \<and> client (nc (snd (callFS v E ctx c s))) = client (nc s)"
  using callFS_extends [of s v E ctx c] unfolding extends_def by auto

subsection \<open>C8: every request goes to the configured end point\<close>

text \<open>
  Claim C8: for a driver built by \<^verbatim>\<open>NewStorageDriver\<close> from a configuration, every
  request that an operation issues (through \<^verbatim>\<open>do\<close>, \<^verbatim>\<open>doUpload\<close>, \<^verbatim>\<open>doDownload\<close> or
  \<^verbatim>\<open>doDownloadRevision\<close>) has a URL that starts with the \<^verbatim>\<open>EndPoint\<close> of that
  configuration.
\<close>

theorem requests_start_with_endPoint:
  "\<exists>rs. wire (snd (callFS v E ctx c \<lparr>nc = NewStorageDriver mockClient netClient conf, wire = w\<rparr>))
          = w @ rs
        \<and> list_all (\<lambda>r. prefix (EndPoint conf) (reqURL r)) rs"
  using callFS_extends [of "\<lparr>nc = NewStorageDriver mockClient netClient conf, wire = w\<rparr>" v E ctx c]
  unfolding extends_def by (auto simp: NewStorageDriver_def)

text \<open>Claim C8 at a download of revision \<open>v1\<close> of \<^verbatim>\<open>/a\<close>: one request, and its URL
  starts with the end point.\<close>

theorem requests_start_with_endPoint_witness:
  "map reqURL (wire (snd (callFS Nextcloud_go exampleEnv (Some alice)
       (OpDownloadRevision refA ''v1'')
       \<lparr>nc = NewStorageDriver unreachable (answering 200 ''data'')
                \<lparr>EndPoint = ''http://nc/apps/sciencemesh/'', MockHTTP = False\<rparr>,
        wire = []\<rparr>)))
     = [''http://nc/apps/sciencemesh/~alice/api/DownloadRevision/v1//a'']
   \<and> prefix ''http://nc/apps/sciencemesh/''
        ''http://nc/apps/sciencemesh/~alice/api/DownloadRevision/v1//a''"
  using requests_start_with_endPoint
          [of Nextcloud_go exampleEnv "Some alice" "OpDownloadRevision refA ''v1''"
              unreachable "answering 200 ''data''"
              "\<lparr>EndPoint = ''http://nc/apps/sciencemesh/'', MockHTTP = False\<rparr>" "[]"]
  by (simp add: callFS_def returning_def DownloadRevision_def doDownloadRevision_def
        getUser_def NewRequest_def clientDo_def NewStorageDriver_def exampleEnv_def
        exampleQueryEscape_def alice_def refA_def answering_def noCTLByte_def)

subsection \<open>C9: the status 404 becomes NotFound\<close>

text \<open>
  Claim C9: \<^verbatim>\<open>GetMD\<close> and \<^verbatim>\<open>ListFolder\<close>, in either revision, return the NotFound
  error exactly when the transport succeeds (\<^verbatim>\<open>do\<close> returns a status and a body, see
  \<open>do_returns_iff\<close>; for \<^verbatim>\<open>ListFolder\<close> the request body was marshalled before) and
  the status is 404; an \<open>Error\<close> carries no deserialization result. For any other
  status the result is what deserializing the body gives. In nextcloud.go:
  the error of \<^verbatim>\<open>json.Unmarshal\<close> when the body does not parse or does not decode into
  the \<^verbatim>\<open>ResourceInfo\<close> (the slice of them), the decoded value otherwise. In
  \<^verbatim>\<open>part_000\<close>: the error of \<^verbatim>\<open>json.Unmarshal\<close> when the body is not a JSON object (for
  \<^verbatim>\<open>ListFolder\<close>: array), otherwise the \<^verbatim>\<open>ResourceInfo\<close> built from the members of the
  object (one per element of the array), or a panic when a type assertion on them
  fails.
\<close>

theorem NotFound_iff_status_404:
  "(fst (callFS v E ctx (OpGetMD ref mdKeys) s) = Error NotFound
      \<longleftrightarrow> (\<exists>body. fst (do E ctx \<lparr>verb = ''GetMD'', argS = marshalDropErr E
                  (GoStruct [(''ref'', GoReference ref), (''mdKeys'', GoStrings mdKeys)])\<rparr> s)
                 = Inr (404, body)))
   \<and> (fst (callFS v E ctx (OpListFolder ref mdKeys) s) = Error NotFound
      \<longleftrightarrow> (\<exists>bodyStr body.
             Marshal E (GoStruct [(''ref'', GoReference ref), (''mdKeys'', GoStrings mdKeys)])
               = Some bodyStr
             \<and> fst (do E ctx \<lparr>verb = ''ListFolder'', argS = bodyStr\<rparr> s) = Inr (404, body)))
   \<and> (\<forall>status body.
         fst (do E ctx \<lparr>verb = ''GetMD'', argS = marshalDropErr E
                  (GoStruct [(''ref'', GoReference ref), (''mdKeys'', GoStrings mdKeys)])\<rparr> s)
           = Inr (status, body) \<and> status \<noteq> 404
         \<longrightarrow> (Unmarshal E body = None
                \<longrightarrow> fst (callFS v E ctx (OpGetMD ref mdKeys) s) = Error UnmarshalError)
             \<and> (\<forall>j info. Unmarshal E body = Some j \<and> decodeResourceInfo E j = Some info
                \<longrightarrow> fst (callFS Nextcloud_go E ctx (OpGetMD ref mdKeys) s)
                      = Return (RetResourceInfo info)))
   \<and> (\<forall>status body bodyStr.
         Marshal E (GoStruct [(''ref'', GoReference ref), (''mdKeys'', GoStrings mdKeys)])
           = Some bodyStr
         \<and> fst (do E ctx \<lparr>verb = ''ListFolder'', argS = bodyStr\<rparr> s) = Inr (status, body)
         \<and> status \<noteq> 404
         \<longrightarrow> (Unmarshal E body = None
                \<longrightarrow> fst (callFS v E ctx (OpListFolder ref mdKeys) s) = Error UnmarshalError)
             \<and> (\<forall>xs infos. Unmarshal E body = Some (JArr xs)
                    \<and> those (map (decodeResourceInfo E) xs) = Some infos
                \<longrightarrow> fst (callFS Nextcloud_go E ctx (OpListFolder ref mdKeys) s)
                      = Return (RetResourceInfos infos)))
   \<and> (\<forall>status body.
         fst (do E ctx \<lparr>verb = ''GetMD'', argS = marshalDropErr E
                  (GoStruct [(''ref'', GoReference ref), (''mdKeys'', GoStrings mdKeys)])\<rparr> s)
           = Inr (status, body) \<and> status \<noteq> 404
         \<longrightarrow> fst (callFS Nextcloud_go E ctx (OpGetMD ref mdKeys) s)
               = (case Unmarshal E body of
                    None \<Rightarrow> Error UnmarshalError
                  | Some j \<Rightarrow>
                      (case decodeResourceInfo E j of
                         None \<Rightarrow> Error UnmarshalError
                       | Some info \<Rightarrow> Return (RetResourceInfo info)))
             \<and> fst (callFS Part_000 E ctx (OpGetMD ref mdKeys) s)
               = (case unmarshalObject E body of
                    None \<Rightarrow> Error UnmarshalError
                  | Some respMap \<Rightarrow>
                      (case GetMD_part0_info E ref respMap of
                         None \<Rightarrow> Panic
                       | Some info \<Rightarrow> Return (RetResourceInfo info))))
   \<and> (\<forall>status body bodyStr.
         Marshal E (GoStruct [(''ref'', GoReference ref), (''mdKeys'', GoStrings mdKeys)])
           = Some bodyStr
         \<and> fst (do E ctx \<lparr>verb = ''ListFolder'', argS = bodyStr\<rparr> s) = Inr (status, body)
         \<and> status \<noteq> 404
         \<longrightarrow> fst (callFS Nextcloud_go E ctx (OpListFolder ref mdKeys) s)
               = (case unmarshalSlice E (decodeResourceInfo E) body of
                    None \<Rightarrow> Error UnmarshalError
                  | Some infos \<Rightarrow> Return (RetResourceInfos infos))
             \<and> fst (callFS Part_000 E ctx (OpListFolder ref mdKeys) s)
               = (case unmarshalArray E body of
                    None \<Rightarrow> Error UnmarshalError
                  | Some respMapArr \<Rightarrow>
                      (case those (map (ListFolder_part0_info E) respMapArr) of
                         None \<Rightarrow> Panic
                       | Some infos \<Rightarrow> Return (RetResourceInfos infos))))"
proof (intro conjI)
  show "fst (callFS v E ctx (OpGetMD ref mdKeys) s) = Error NotFound
      \<longleftrightarrow> (\<exists>body. fst (do E ctx \<lparr>verb = ''GetMD'', argS = marshalDropErr E
                  (GoStruct [(''ref'', GoReference ref), (''mdKeys'', GoStrings mdKeys)])\<rparr> s)
                 = Inr (404, body))"
    by (cases v)
       (simp_all add: callFS_def returning_def GetMD_def GetMD_part0_def Let_def NotFound_iffs)
next
  show "fst (callFS v E ctx (OpListFolder ref mdKeys) s) = Error NotFound
      \<longleftrightarrow> (\<exists>bodyStr body.
             Marshal E (GoStruct [(''ref'', GoReference ref), (''mdKeys'', GoStrings mdKeys)])
               = Some bodyStr
             \<and> fst (do E ctx \<lparr>verb = ''ListFolder'', argS = bodyStr\<rparr> s) = Inr (404, body))"
    by (cases v)
       (simp_all add: callFS_def returning_def ListFolder_def ListFolder_part0_def Let_def
          NotFound_iffs split: option.split)
next
  show "\<forall>status body.
         fst (do E ctx \<lparr>verb = ''GetMD'', argS = marshalDropErr E
                  (GoStruct [(''ref'', GoReference ref), (''mdKeys'', GoStrings mdKeys)])\<rparr> s)
           = Inr (status, body) \<and> status \<noteq> 404
         \<longrightarrow> (Unmarshal E body = None
                \<longrightarrow> fst (callFS v E ctx (OpGetMD ref mdKeys) s) = Error UnmarshalError)
             \<and> (\<forall>j info. Unmarshal E body = Some j \<and> decodeResourceInfo E j = Some info
                \<longrightarrow> fst (callFS Nextcloud_go E ctx (OpGetMD ref mdKeys) s)
                      = Return (RetResourceInfo info))"
    by (cases v)
       (auto simp: callFS_def returning_def GetMD_def GetMD_part0_def Let_def
          GetMD_response_def GetMD_part0_response_def unmarshal_fail unmarshalStruct_def)
next
  show "\<forall>status body bodyStr.
         Marshal E (GoStruct [(''ref'', GoReference ref), (''mdKeys'', GoStrings mdKeys)])
           = Some bodyStr
         \<and> fst (do E ctx \<lparr>verb = ''ListFolder'', argS = bodyStr\<rparr> s) = Inr (status, body)
         \<and> status \<noteq> 404
         \<longrightarrow> (Unmarshal E body = None
                \<longrightarrow> fst (callFS v E ctx (OpListFolder ref mdKeys) s) = Error UnmarshalError)
             \<and> (\<forall>xs infos. Unmarshal E body = Some (JArr xs)
                    \<and> those (map (decodeResourceInfo E) xs) = Some infos
                \<longrightarrow> fst (callFS Nextcloud_go E ctx (OpListFolder ref mdKeys) s)
                      = Return (RetResourceInfos infos))"
    by (cases v)
       (auto simp: callFS_def returning_def ListFolder_def ListFolder_part0_def Let_def
          ListFolder_response_def ListFolder_part0_response_def unmarshal_fail unmarshalSlice_def)
next
  show "\<forall>status body.
         fst (do E ctx \<lparr>verb = ''GetMD'', argS = marshalDropErr E
                  (GoStruct [(''ref'', GoReference ref), (''mdKeys'', GoStrings mdKeys)])\<rparr> s)
           = Inr (status, body) \<and> status \<noteq> 404
         \<longrightarrow> fst (callFS Nextcloud_go E ctx (OpGetMD ref mdKeys) s)
               = (case Unmarshal E body of
                    None \<Rightarrow> Error UnmarshalError
                  | Some j \<Rightarrow>
                      (case decodeResourceInfo E j of
                         None \<Rightarrow> Error UnmarshalError
                       | Some info \<Rightarrow> Return (RetResourceInfo info)))
             \<and> fst (callFS Part_000 E ctx (OpGetMD ref mdKeys) s)
               = (case unmarshalObject E body of
                    None \<Rightarrow> Error UnmarshalError
                  | Some respMap \<Rightarrow>
                      (case GetMD_part0_info E ref respMap of
                         None \<Rightarrow> Panic
                       | Some info \<Rightarrow> Return (RetResourceInfo info)))"
    by (auto simp: callFS_def returning_def GetMD_def GetMD_part0_def Let_def
          GetMD_response_def GetMD_part0_response_def unmarshalStruct_def split: option.splits)
next
  show "\<forall>status body bodyStr.
         Marshal E (GoStruct [(''ref'', GoReference ref), (''mdKeys'', GoStrings mdKeys)])
           = Some bodyStr
         \<and> fst (do E ctx \<lparr>verb = ''ListFolder'', argS = bodyStr\<rparr> s) = Inr (status, body)
         \<and> status \<noteq> 404
         \<longrightarrow> fst (callFS Nextcloud_go E ctx (OpListFolder ref mdKeys) s)
               = (case unmarshalSlice E (decodeResourceInfo E) body of
                    None \<Rightarrow> Error UnmarshalError
                  | Some infos \<Rightarrow> Return (RetResourceInfos infos))
             \<and> fst (callFS Part_000 E ctx (OpListFolder ref mdKeys) s)
               = (case unmarshalArray E body of
                    None \<Rightarrow> Error UnmarshalError
                  | Some respMapArr \<Rightarrow>
                      (case those (map (ListFolder_part0_info E) respMapArr) of
                         None \<Rightarrow> Panic
                       | Some infos \<Rightarrow> Return (RetResourceInfos infos)))"
    by (auto simp: callFS_def returning_def ListFolder_def ListFolder_part0_def Let_def
          ListFolder_response_def ListFolder_part0_response_def split: option.splits)
qed

text \<open>Claim C9 at a server that answers 404 (NotFound from both methods), at one
  that answers 200 with a body that is not JSON (the error of \<^verbatim>\<open>json.Unmarshal\<close>), and
  at \<^verbatim>\<open>part_000\<close> with bodies that parse: from an object with the members it reads,
  \<^verbatim>\<open>GetMD\<close> returns the \<^verbatim>\<open>ResourceInfo\<close> built from them; from the empty object it
  panics; \<^verbatim>\<open>ListFolder\<close> returns the error of \<^verbatim>\<open>json.Unmarshal\<close> for an object where an
  array is expected.\<close>

theorem NotFound_witness:
  \<open>fst (callFS Nextcloud_go exampleEnv (Some alice) (OpGetMD refA [])
          (driverWith (answering 404 ''{}''))) = Error NotFound
   \<and> fst (callFS Part_000 exampleEnv (Some alice) (OpListFolder refA [])
          (driverWith (answering 404 ''{}''))) = Error NotFound
   \<and> fst (callFS Part_000 exampleEnv (Some alice) (OpGetMD refA [])
          (driverWith (answering 200 ''not json''))) = Error UnmarshalError
   \<and> fst (callFS Nextcloud_go exampleEnv (Some alice) (OpGetMD refA [])
          (driverWith (answering 200 ''not json''))) = Error UnmarshalError
   \<and> fst (callFS Part_000 exampleEnv (Some alice) (OpGetMD refA [])
          (driverWith (answering 200
             ''{"size":12,"path":"/a/welcome.txt","etag":"e1","mimetype":"text/plain"}'')))
     = Return (RetResourceInfo
         \<lparr>ri_Opaque = Some Opaque_zero,
          ri_Type = RESOURCE_TYPE_FILE,
          ri_Id = Some \<lparr>rid_StorageId = [], rid_OpaqueId = ''fileid-%2Fa%2Fwelcome.txt''\<rparr>,
          ri_Checksum = Some ResourceChecksum_zero,
          ri_Etag = ''e1'',
          ri_MimeType = ''text/plain'',
          ri_Mtime = Some \<lparr>ts_Seconds = 1234567890\<rparr>,
          ri_Path = ''/a'',
          ri_PermissionSet = Some ResourcePermissions_zero,
          ri_Size = 12,
          ri_Owner = None,
          ri_Target = [],
          ri_CanonicalMetadata = Some CanonicalMetadata_zero,
          ri_ArbitraryMetadata = Some \<lparr>am_Metadata = Map.empty\<rparr>\<rparr>)
   \<and> fst (callFS Part_000 exampleEnv (Some alice) (OpGetMD refA [])
          (driverWith (answering 200 ''{}''))) = Panic
   \<and> fst (callFS Part_000 exampleEnv (Some alice) (OpListFolder refA [])
          (driverWith (answering 200 ''{}''))) = Error UnmarshalError\<close>
  using NotFound_iff_status_404 [of Nextcloud_go exampleEnv "Some alice" refA "[]"
                                    "driverWith (answering 404 ''{}'')"]
        NotFound_iff_status_404 [of Part_000 exampleEnv "Some alice" refA "[]"
                                    "driverWith (answering 404 ''{}'')"]
        NotFound_iff_status_404 [of Part_000 exampleEnv "Some alice" refA "[]"
                                    "driverWith (answering 200 ''not json'')"]
        NotFound_iff_status_404 [of Part_000 exampleEnv "Some alice" refA "[]"
          \<open>driverWith (answering 200
             ''{"size":12,"path":"/a/welcome.txt","etag":"e1","mimetype":"text/plain"}'')\<close>]
        NotFound_iff_status_404 [of Part_000 exampleEnv "Some alice" refA "[]"
                                    "driverWith (answering 200 ''{}'')"]
  by (simp add: do_Some Let_def marshalDropErr_def Unmarshal_def unmarshalObject_def
        unmarshalArray_def unmarshalSlice_def GetMD_part0_info_def lookupKey_def
        exampleEnv_def exampleMarshal_def exampleParse_def exampleQueryEscape_def
        alice_def driverWith_def answering_def noCTLByte_def refA_def)

subsection \<open>C10: no user, no request\<close>

text \<open>
  Claim C10: when no user is in the context, every operation that goes through
  \<^verbatim>\<open>do\<close> returns a non-nil error and issues no HTTP request. The theorem shows it for
  every operation of the interface in both revisions (the upload and download
  helpers call \<^verbatim>\<open>getUser\<close> first as well), and that the state is left as it was.
\<close>

theorem no_user_no_request:
  "isError (fst (callFS v E None c s)) \<and> snd (callFS v E None c s) = s"
  by (cases v; cases c)
     (simp_all add: callFS_def returning_def method_defs method_part0_defs Let_def do_None
        unmarshalObject_Nil doUpload_def doDownload_def doDownloadRevision_def getUser_def
        response_defs
        split: option.split)

end
